theory Spec2Isabelle
  imports Complex_Main "HOL-Library.Word"
begin

section \<open>Data model of the face verification endpoint (src/app.py)\<close>

text \<open>
  The development embeds \<^verbatim>\<open>verify_face\<close> (src/app.py, lines 414-511) and
  \<^verbatim>\<open>send_attendance_notification\<close> (lines 652-686).

  Conventions.
  \<^item> A \<^verbatim>\<open>datetime\<close> is an integer number of microseconds since the epoch (the
    resolution of Python's naive UTC datetimes); a \<^verbatim>\<open>date\<close> is a day number; a
    \<^verbatim>\<open>timedelta\<close> is an integer number of microseconds.
  \<^item> Similarity scores are Python floats. Only their order is used by the code; they
    are modelled as reals, which is exact for every float but NaN.
  \<^item> Every exception the \<^verbatim>\<open>try\<close> block can see is a value \<open>Inl e\<close>.
  \<^item> The collaborators whose code is not under src/ (utils/face_utils.py, the ORM
    models, flask-mail, numpy) are parameters, gathered in the record \<open>env\<close>.
  \<^item> The ORM session is a pair of row lists: \<open>session\<close> (what queries through
    \<^verbatim>\<open>db.session\<close> see) and \<open>committed\<close> (what a commit made durable). Queries
    and commits themselves are assumed not to raise.
  \<^item> Calls with an effect outside the process are recorded, in order, in \<open>trace\<close>.
\<close>

datatype error =
    NameError         \<comment> \<open>also its subclass UnboundLocalError\<close>
  | IndexError
  | AttributeError
  | TypeError
  | ValueError
  | OtherError string

type_synonym datetime = int
type_synonym date = int
type_synonym timedelta = int
type_synonym embedding = "real list"
type_synonym bytes = "8 word list"
type_synonym face_box = "nat list"

record user =
  user_id :: nat
  name :: string
  email :: string
  is_admin :: bool
  face_embedding :: "bytes option"

record attendance =
  employee_id :: nat
  time_in :: datetime
  time_out :: "datetime option"
  status :: string
  timestamp :: datetime

text \<open>The value stored under a key of the request's JSON body.\<close>

datatype json = JString string | JOther

text \<open>
  The \<^verbatim>\<open>message\<close> of a response: one constructor for each string literal or f-string
  template of \<^verbatim>\<open>verify_face\<close>, carrying the interpolated values.
\<close>

datatype message =
    No_image_provided
  | No_face_detected
  | Cannot_clock_out_yet int           \<comment> \<open>elapsed minutes\<close>
  | Clocked_out_successfully real      \<comment> \<open>hours worked\<close>
  | Already_marked_attendance
  | Attendance_marked_as string
  | Face_not_recognized
  | Error_message error                \<comment> \<open>\<^verbatim>\<open>f'Error: {str(e)}'\<close>\<close>

text \<open>The JSON object handed to \<^verbatim>\<open>jsonify\<close>; absent keys are \<open>None\<close>.\<close>

record response =
  success :: bool
  message :: message
  employee_name :: "string option"
  resp_status :: "string option"       \<comment> \<open>the key \<^verbatim>\<open>'status'\<close>\<close>

text \<open>The flask-mail \<^verbatim>\<open>Message\<close> built by \<^verbatim>\<open>send_attendance_notification\<close>.\<close>

record mail_message =
  subject :: date                      \<comment> \<open>the day printed in the subject\<close>
  recipients :: "string list"
  body_name :: string
  body_status :: string
  body_time_in :: datetime
  body_time_out :: "(datetime \<times> real) option"  \<comment> \<open>time out and hours worked\<close>

datatype log =
    Face_matched string nat real
  | No_face_match real real
  | Error_in_face_verification error
  | Email_sent string
  | Error_sending_email error

datatype event =
    Print log
  | Process_image string
  | Commit
  | Rollback
  | Mail_send mail_message

record config =
  FACE_RECOGNITION_THRESHOLD :: real
  WORKING_HOURS_START :: timedelta     \<comment> \<open>time of day, as an offset from midnight\<close>
  LATE_THRESHOLD_MINUTES :: int

record env =
  process_image :: "string \<Rightarrow> error + (face_box option \<times> embedding option)"
  frombuffer :: "bytes \<Rightarrow> error + embedding"
  compare_faces :: "embedding \<Rightarrow> embedding \<Rightarrow> real \<Rightarrow> error + (bool \<times> real)"
  calculate_hours_worked :: "attendance \<Rightarrow> error + real"
  mail_send :: "mail_message \<Rightarrow> error option"

record state =
  users :: "user list"
  session :: "attendance list"
  committed :: "attendance list"
  trace :: "event list"

section \<open>Dates, times and strings\<close>

definition seconds :: "int \<Rightarrow> timedelta" where
  "seconds n = n * 1000000"

definition minutes :: "int \<Rightarrow> timedelta" where
  "minutes n = n * 60000000"

definition date_of :: "datetime \<Rightarrow> date" where
  "date_of t = t div 86400000000"

definition combine :: "date \<Rightarrow> timedelta \<Rightarrow> datetime" where
  "combine d t = d * 86400000000 + t"

text \<open>
  \<^verbatim>\<open>int(time_diff.total_seconds() / 60)\<close>: \<^verbatim>\<open>int\<close> truncates towards zero.
\<close>

definition int_minutes :: "timedelta \<Rightarrow> int" where
  "int_minutes d = (if 0 \<le> d then d div 60000000 else - ((- d) div 60000000))"

definition startswith :: "string \<Rightarrow> string \<Rightarrow> bool" where
  "startswith s p = (take (length p) s = p)"

text \<open>\<^verbatim>\<open>s.split(c)\<close> for a one-character separator: never the empty list.\<close>

fun split :: "char \<Rightarrow> string \<Rightarrow> string list" where
  "split c [] = [[]]"
| "split c (x # xs) =
     (if x = c then [] # split c xs
      else (case split c xs of
              w # ws \<Rightarrow> (x # w) # ws
            | [] \<Rightarrow> [[x]]))"

section \<open>The matcher (lines 428-444)\<close>

text \<open>Truthiness of \<^verbatim>\<open>employee.face_embedding\<close>: NULL and the empty bytes are false.\<close>

definition has_embedding :: "user \<Rightarrow> bool" where
  "has_embedding u = (case face_embedding u of None \<Rightarrow> False | Some bs \<Rightarrow> bs \<noteq> [])"

text \<open>\<^verbatim>\<open>User.query.filter_by(is_admin=False).all()\<close>\<close>

definition employees :: "user list \<Rightarrow> user list" where
  "employees us = filter (\<lambda>u. \<not> is_admin u) us"

text \<open>The employees the loop compares the probe with.\<close>

definition candidates :: "user list \<Rightarrow> user list" where
  "candidates us = filter has_embedding (employees us)"

text \<open>Lines 435-436: decode the stored bytes and compare; either call may raise.\<close>

definition similarity :: "env \<Rightarrow> real \<Rightarrow> embedding \<Rightarrow> user \<Rightarrow> error + real" where
  "similarity ev thr probe u =
     (case face_embedding u of
        None \<Rightarrow> Inl TypeError
      | Some bs \<Rightarrow>
          (case frombuffer ev bs of
             Inl e \<Rightarrow> Inl e
           | Inr stored_embedding \<Rightarrow>
               (case compare_faces ev probe stored_embedding thr of
                  Inl e \<Rightarrow> Inl e
                | Inr (is_match, sim) \<Rightarrow> Inr sim)))"

text \<open>
  The loop of lines 432-441, with \<open>(best_match, highest_similarity)\<close> as accumulator.
\<close>

fun find_best_match ::
  "env \<Rightarrow> real \<Rightarrow> embedding \<Rightarrow> user list \<Rightarrow> user option \<times> real \<Rightarrow> error + (user option \<times> real)"
where
  "find_best_match ev thr probe [] acc = Inr acc"
| "find_best_match ev thr probe (employee # rest) (best_match, highest_similarity) =
     (if has_embedding employee then
        (case similarity ev thr probe employee of
           Inl e \<Rightarrow> Inl e
         | Inr sim \<Rightarrow>
             if sim > highest_similarity
             then find_best_match ev thr probe rest (Some employee, sim)
             else find_best_match ev thr probe rest (best_match, highest_similarity))
      else find_best_match ev thr probe rest (best_match, highest_similarity))"

text \<open>
  Lines 428-444: the scan from \<open>(None, 0)\<close> and the test
  \<^verbatim>\<open>best_match and highest_similarity >= FACE_RECOGNITION_THRESHOLD\<close>. The result
  is the accepted employee with the score, or \<open>None\<close> with the highest score seen.
\<close>

definition identify ::
  "real \<Rightarrow> env \<Rightarrow> embedding \<Rightarrow> user list \<Rightarrow> error + ((user \<times> real) option \<times> real)"
where
  "identify thr ev probe us =
     (case find_best_match ev thr probe (employees us) (None, 0) of
        Inl e \<Rightarrow> Inl e
      | Inr (best_match, highest_similarity) \<Rightarrow>
          (case best_match of
             Some employee \<Rightarrow>
               if highest_similarity \<ge> thr
               then Inr (Some (employee, highest_similarity), highest_similarity)
               else Inr (None, highest_similarity)
           | None \<Rightarrow> Inr (None, highest_similarity)))"

section \<open>Notification (lines 652-686)\<close>

text \<open>
  The part of the \<^verbatim>\<open>try\<close> block before \<^verbatim>\<open>mail.send\<close>: formatting the hours with
  \<^verbatim>\<open>:.2f\<close> raises TypeError when \<^verbatim>\<open>hours_worked\<close> is \<^verbatim>\<open>None\<close>.
\<close>

definition build_message :: "user \<Rightarrow> attendance \<Rightarrow> real option \<Rightarrow> error + mail_message" where
  "build_message employee att hours_worked =
     (case time_out att of
        None \<Rightarrow>
          Inr \<lparr>subject = date_of (timestamp att), recipients = [email employee],
               body_name = name employee, body_status = status att,
               body_time_in = time_in att, body_time_out = None\<rparr>
      | Some t_out \<Rightarrow>
          (case hours_worked of
             None \<Rightarrow> Inl TypeError
           | Some h \<Rightarrow>
               Inr \<lparr>subject = date_of (timestamp att), recipients = [email employee],
                    body_name = name employee, body_status = status att,
                    body_time_in = time_in att, body_time_out = Some (t_out, h)\<rparr>))"

text \<open>
  The function never raises: it returns nothing and leaves only its events.
\<close>

definition send_attendance_notification ::
  "env \<Rightarrow> user \<Rightarrow> attendance \<Rightarrow> real option \<Rightarrow> event list"
where
  "send_attendance_notification ev employee att hours_worked =
     (case build_message employee att hours_worked of
        Inl e \<Rightarrow> [Print (Error_sending_email e)]
      | Inr msg \<Rightarrow>
          (case mail_send ev msg of
             Some e \<Rightarrow> [Mail_send msg, Print (Error_sending_email e)]
           | None \<Rightarrow> [Mail_send msg, Print (Email_sent (email employee))]))"

section \<open>Marking attendance (lines 445-504)\<close>

text \<open>
  Modelled from the spec: \<^verbatim>\<open>Attendance.set_time_out\<close> (models/attendance.py) is not
  under src/. The spec's transition 3 is "set \<^verbatim>\<open>time_out = now\<close>".
\<close>

definition set_time_out :: "attendance \<Rightarrow> datetime \<Rightarrow> attendance" where
  "set_time_out a t = a\<lparr>time_out := Some t\<rparr>"

text \<open>
  \<^verbatim>\<open>Attendance.query.filter_by(employee_id=employee.id)
       .filter(Attendance.timestamp >= today).first()\<close>:
  the date is compared as its midnight; the rows come in the list's order.
\<close>

definition todays :: "user \<Rightarrow> date \<Rightarrow> attendance \<Rightarrow> bool" where
  "todays employee today a =
     (employee_id a = user_id employee \<and> timestamp a \<ge> combine today 0)"

definition existing_attendance :: "attendance list \<Rightarrow> user \<Rightarrow> date \<Rightarrow> attendance option" where
  "existing_attendance rows employee today = find (todays employee today) rows"

text \<open>Writing the mutated row object back: the first row the query matched.\<close>

fun update_first :: "('a \<Rightarrow> bool) \<Rightarrow> 'a \<Rightarrow> 'a list \<Rightarrow> 'a list" where
  "update_first P y [] = []"
| "update_first P y (x # xs) = (if P x then y # xs else x # update_first P y xs)"

definition commit :: "state \<Rightarrow> state" where
  "commit st = st\<lparr>committed := session st, trace := trace st @ [Commit]\<rparr>"

definition rollback :: "state \<Rightarrow> state" where
  "rollback st = st\<lparr>session := committed st, trace := trace st @ [Rollback]\<rparr>"

definition emit :: "event list \<Rightarrow> state \<Rightarrow> state" where
  "emit es st = st\<lparr>trace := trace st @ es\<rparr>"

definition late_time :: "config \<Rightarrow> datetime \<Rightarrow> datetime" where
  "late_time cfg now =
     combine (date_of now) (WORKING_HOURS_START cfg) + minutes (LATE_THRESHOLD_MINUTES cfg)"

definition classify :: "config \<Rightarrow> datetime \<Rightarrow> string" where
  "classify cfg now = (if now \<le> late_time cfg now then ''present'' else ''late'')"

definition mark_attendance ::
  "config \<Rightarrow> env \<Rightarrow> datetime \<Rightarrow> state \<Rightarrow> user \<Rightarrow> real \<Rightarrow> (error + response) \<times> state"
where
  "mark_attendance cfg ev now st employee highest_similarity =
     (let st0 = emit [Print (Face_matched (name employee) (user_id employee) highest_similarity)] st;
          today = date_of now;
          status = classify cfg now
      in case existing_attendance (session st0) employee today of
           Some existing \<Rightarrow>
             if time_out existing = None then
               (let time_diff = now - time_in existing in
                if time_diff < seconds 600 then
                  (Inr \<lparr>success = False,
                        message = Cannot_clock_out_yet (int_minutes time_diff),
                        employee_name = Some (name employee),
                        resp_status = Some ''minimum_time_not_met''\<rparr>, st0)
                else
                  (let existing' = set_time_out existing now;
                       st1 = commit (st0\<lparr>session :=
                               update_first (todays employee today) existing' (session st0)\<rparr>)
                   in case calculate_hours_worked ev existing' of
                        Inl e \<Rightarrow> (Inl e, st1)
                      | Inr hours \<Rightarrow>
                          (let st2 = emit (send_attendance_notification ev employee existing'
                                             (Some hours)) st1
                           in case calculate_hours_worked ev existing' of
                                Inl e \<Rightarrow> (Inl e, st2)
                              | Inr hours' \<Rightarrow>
                                  (Inr \<lparr>success = True,
                                        message = Clocked_out_successfully hours',
                                        employee_name = Some (name employee),
                                        resp_status = Some ''clocked_out''\<rparr>, st2))))
             else
               (Inr \<lparr>success = True,
                     message = Already_marked_attendance,
                     employee_name = Some (name employee),
                     resp_status = Some ''already_marked''\<rparr>, st0)
         | None \<Rightarrow>
             (let att = \<lparr>employee_id = user_id employee, time_in = now, time_out = None,
                         status = status, timestamp = now\<rparr>;
                  st1 = commit (st0\<lparr>session := session st0 @ [att]\<rparr>);
                  st2 = emit (send_attendance_notification ev employee att None) st1
              in (Inr \<lparr>success = True,
                       message = Attendance_marked_as status,
                       employee_name = Some (name employee),
                       resp_status = Some status\<rparr>, st2)))"

section \<open>The endpoint (lines 414-511)\<close>

text \<open>
  Lines 421-422 and the read of \<^verbatim>\<open>image\<close> in line 423. \<^verbatim>\<open>image\<close> is bound only
  under the \<^verbatim>\<open>if\<close>; reading it unbound raises.
\<close>

definition get_image :: "json \<Rightarrow> error + string" where
  "get_image v =
     (case v of
        JOther \<Rightarrow> Inl AttributeError
      | JString s \<Rightarrow>
          if startswith s ''data:image'' then
            (case split (CHR '','') s of
               _ # img # _ \<Rightarrow> Inr img
             | _ \<Rightarrow> Inl IndexError)
          else Inl NameError)"

text \<open>The body of the \<^verbatim>\<open>try\<close> block, lines 421-507.\<close>

definition try_block ::
  "config \<Rightarrow> env \<Rightarrow> datetime \<Rightarrow> state \<Rightarrow> json \<Rightarrow> (error + response) \<times> state"
where
  "try_block cfg ev now st v =
     (case get_image v of
        Inl e \<Rightarrow> (Inl e, st)
      | Inr img \<Rightarrow>
          (let st1 = emit [Process_image img] st in
           case process_image ev img of
             Inl e \<Rightarrow> (Inl e, st1)
           | Inr (face_box, embedding) \<Rightarrow>
               (case (face_box, embedding) of
                  (Some box, Some probe) \<Rightarrow>
                    (case identify (FACE_RECOGNITION_THRESHOLD cfg) ev probe (users st1) of
                       Inl e \<Rightarrow> (Inl e, st1)
                     | Inr (Some (employee, highest_similarity), _) \<Rightarrow>
                         mark_attendance cfg ev now st1 employee highest_similarity
                     | Inr (None, highest_similarity) \<Rightarrow>
                         (Inr \<lparr>success = False, message = Face_not_recognized,
                               employee_name = None, resp_status = None\<rparr>,
                          emit [Print (No_face_match highest_similarity
                                         (FACE_RECOGNITION_THRESHOLD cfg))] st1))
                | _ \<Rightarrow>
                    (Inr \<lparr>success = False, message = No_face_detected,
                          employee_name = None, resp_status = None\<rparr>, st1))))"

text \<open>
  \<^verbatim>\<open>verify_face\<close>. \<open>data\<close> is \<^verbatim>\<open>request.get_json()\<close>: \<open>None\<close>, or an object;
  \<open>now\<close> is what \<^verbatim>\<open>datetime.utcnow()\<close> returns in line 449.
\<close>

definition verify_face ::
  "config \<Rightarrow> env \<Rightarrow> datetime \<Rightarrow> state \<Rightarrow> (string \<rightharpoonup> json) option \<Rightarrow> response \<times> state"
where
  "verify_face cfg ev now st data =
     (case data of
        None \<Rightarrow>
          (\<lparr>success = False, message = No_image_provided,
            employee_name = None, resp_status = None\<rparr>, st)
      | Some d \<Rightarrow>
          (case d ''image'' of
             None \<Rightarrow>
               (\<lparr>success = False, message = No_image_provided,
                 employee_name = None, resp_status = None\<rparr>, st)
           | Some v \<Rightarrow>
               (case try_block cfg ev now st v of
                  (Inr r, st') \<Rightarrow> (r, st')
                | (Inl e, st') \<Rightarrow>
                    (\<lparr>success = False, message = Error_message e,
                      employee_name = None, resp_status = None\<rparr>,
                     emit [Print (Error_in_face_verification e)] (rollback st')))))"


section \<open>The comparison of embeddings\<close>

text \<open>
  Modelled from the spec: \<^verbatim>\<open>compare_faces\<close> (utils/face_utils.py) is not under
  src/. By the spec (sections 3, 4.1 and 7) it scores the probe against a stored
  embedding with one fixed similarity function, here the parameter \<open>sim\<close>, reports
  whether the score reaches the threshold, and a difference of dimensionality is a
  fatal error, not a score.
\<close>

definition compare_faces_spec ::
  "(embedding \<Rightarrow> embedding \<Rightarrow> real) \<Rightarrow> embedding \<Rightarrow> embedding \<Rightarrow> real \<Rightarrow> error + (bool \<times> real)"
where
  "compare_faces_spec sim probe stored thr =
     (if length probe \<noteq> length stored then Inl ValueError
      else Inr (sim probe stored \<ge> thr, sim probe stored))"

section \<open>Concrete inputs\<close>

text \<open>A wall-clock time \<^verbatim>\<open>h:m\<close> on day \<open>d\<close>.\<close>

definition clock :: "date \<Rightarrow> int \<Rightarrow> int \<Rightarrow> datetime" where
  "clock d h m = combine d (minutes (h * 60 + m))"

text \<open>Shift start 09:00, late threshold 30 minutes, similarity threshold 0.75.\<close>

definition cfg0 :: config where
  "cfg0 = \<lparr>FACE_RECOGNITION_THRESHOLD = 3 / 4, WORKING_HOURS_START = minutes (9 * 60),
           LATE_THRESHOLD_MINUTES = 30\<rparr>"

definition alice :: user where
  "alice = \<lparr>user_id = 11, name = ''alice'', email = ''alice@example.org'', is_admin = False,
            face_embedding = Some [9, 1]\<rparr>"

definition bob :: user where
  "bob = \<lparr>user_id = 12, name = ''bob'', email = ''bob@example.org'', is_admin = False,
          face_embedding = Some [9, 5]\<rparr>"

definition carol :: user where
  "carol = \<lparr>user_id = 13, name = ''carol'', email = ''carol@example.org'', is_admin = False,
            face_embedding = None\<rparr>"

definition dave :: user where
  "dave = \<lparr>user_id = 14, name = ''dave'', email = ''dave@example.org'', is_admin = False,
           face_embedding = Some [5, 0]\<rparr>"

text \<open>
  Stand-ins for the collaborators: one float per stored byte, and a scaled dot
  product as score, so that the probe \<open>[10, 0]\<close> scores 0.9 against alice and bob
  and 0.5 against dave.
\<close>

definition score0 :: "embedding \<Rightarrow> embedding \<Rightarrow> real" where
  "score0 p q = sum_list (map (\<lambda>(x, y). x * y) (zip p q)) / 100"

definition env0 :: env where
  "env0 = \<lparr>process_image = (\<lambda>img. Inr (Some [0, 0, 10, 10], Some [10, 0])),
           frombuffer = (\<lambda>bs. Inr (map (\<lambda>b. real (unat b)) bs)),
           compare_faces = (\<lambda>p q thr. Inr (score0 p q \<ge> thr, score0 p q)),
           calculate_hours_worked =
             (\<lambda>a. case time_out a of
                     None \<Rightarrow> Inl TypeError
                   | Some t \<Rightarrow> Inr (real_of_int (t - time_in a) / 3600000000)),
           mail_send = (\<lambda>m. None)\<rparr>"

definition row :: "nat \<Rightarrow> datetime \<Rightarrow> datetime option \<Rightarrow> attendance" where
  "row i t_in t_out =
     \<lparr>employee_id = i, time_in = t_in, time_out = t_out, status = ''present'', timestamp = t_in\<rparr>"

definition ledger :: "attendance list \<Rightarrow> state" where
  "ledger rows = \<lparr>users = [alice, bob, carol, dave], session = rows, committed = rows, trace = []\<rparr>"

text \<open>Two employees whose embeddings are orthogonal to the probe: score 0.\<close>

definition erin :: user where
  "erin = \<lparr>user_id = 15, name = ''erin'', email = ''erin@example.org'', is_admin = False,
           face_embedding = Some [0, 7]\<rparr>"

definition frank :: user where
  "frank = \<lparr>user_id = 16, name = ''frank'', email = ''frank@example.org'', is_admin = False,
            face_embedding = Some [0, 9]\<rparr>"

text \<open>An employee enrolled with three dimensions, where the probe has two.\<close>

definition grace :: user where
  "grace = \<lparr>user_id = 17, name = ''grace'', email = ''grace@example.org'', is_admin = False,
            face_embedding = Some [9, 1, 4]\<rparr>"

definition roster :: "user list \<Rightarrow> state" where
  "roster us = \<lparr>users = us, session = [], committed = [], trace = []\<rparr>"

definition cfg_zero :: config where
  "cfg_zero = cfg0\<lparr>FACE_RECOGNITION_THRESHOLD := 0\<rparr>"

definition env_spec :: env where
  "env_spec = env0\<lparr>compare_faces := compare_faces_spec score0\<rparr>"

definition env_mail_down :: env where
  "env_mail_down = env0\<lparr>mail_send := (\<lambda>m. Some (OtherError ''connection refused''))\<rparr>"

definition request0 :: "(string \<rightharpoonup> json) option" where
  "request0 = Some [''image'' \<mapsto> JString ''data:image/png;base64,AAAA'']"

section \<open>Lemmas on the ledger\<close>

lemma find_update_first:
  "find P rows = Some x \<Longrightarrow> P y \<Longrightarrow> find P (update_first P y rows) = Some y"
  by (induction rows) (auto split: if_splits)

lemma map_update_first:
  "find P rows = Some x \<Longrightarrow> f y = f x \<Longrightarrow> map f (update_first P y rows) = map f rows"
  by (induction rows) (auto split: if_splits)

lemma length_update_first: "length (update_first P y rows) = length rows"
  by (induction rows) auto

lemma find_Some_holds: "find P rows = Some x \<Longrightarrow> P x"
  by (induction rows) (auto split: if_splits)

lemma todays_set_time_out:
  "todays employee today (set_time_out a t) = todays employee today a"
  by (simp add: todays_def set_time_out_def)

lemma existing_after_close:
  assumes "existing_attendance rows employee today = Some existing"
  shows "existing_attendance
           (update_first (todays employee today) (set_time_out existing now) rows) employee today
         = Some (set_time_out existing now)"
proof -
  from assms have f: "find (todays employee today) rows = Some existing"
    by (simp add: existing_attendance_def)
  then have "todays employee today existing" by (rule find_Some_holds)
  then have "todays employee today (set_time_out existing now)"
    by (simp add: todays_set_time_out)
  with f show ?thesis
    unfolding existing_attendance_def by (rule find_update_first)
qed

section \<open>The four transitions of \<open>mark_attendance\<close>\<close>

lemma mark_closed:
  assumes "existing_attendance (session st) employee (date_of now) = Some existing"
    and "time_out existing = Some t"
  shows "mark_attendance cfg ev now st employee h =
     (Inr \<lparr>success = True, message = Already_marked_attendance,
           employee_name = Some (name employee), resp_status = Some ''already_marked''\<rparr>,
      emit [Print (Face_matched (name employee) (user_id employee) h)] st)"
  using assms by (simp add: mark_attendance_def emit_def Let_def)

lemma mark_too_soon:
  assumes "existing_attendance (session st) employee (date_of now) = Some existing"
    and "time_out existing = None"
    and "now - time_in existing < seconds 600"
  shows "mark_attendance cfg ev now st employee h =
     (Inr \<lparr>success = False,
           message = Cannot_clock_out_yet (int_minutes (now - time_in existing)),
           employee_name = Some (name employee),
           resp_status = Some ''minimum_time_not_met''\<rparr>,
      emit [Print (Face_matched (name employee) (user_id employee) h)] st)"
  using assms by (simp add: mark_attendance_def emit_def Let_def)

lemma mark_clock_out_state:
  assumes "existing_attendance (session st) employee (date_of now) = Some existing"
    and "time_out existing = None"
    and "seconds 600 \<le> now - time_in existing"
  shows "session (snd (mark_attendance cfg ev now st employee h)) =
           update_first (todays employee (date_of now)) (set_time_out existing now) (session st)"
    and "committed (snd (mark_attendance cfg ev now st employee h)) =
           update_first (todays employee (date_of now)) (set_time_out existing now) (session st)"
    and "users (snd (mark_attendance cfg ev now st employee h)) = users st"
  using assms
  by (simp_all add: mark_attendance_def emit_def commit_def Let_def split: sum.splits)

lemma mark_clock_out_response:
  assumes "existing_attendance (session st) employee (date_of now) = Some existing"
    and "time_out existing = None"
    and "seconds 600 \<le> now - time_in existing"
    and "calculate_hours_worked ev (set_time_out existing now) = Inr hours"
  shows "fst (mark_attendance cfg ev now st employee h) =
     Inr \<lparr>success = True, message = Clocked_out_successfully hours,
          employee_name = Some (name employee), resp_status = Some ''clocked_out''\<rparr>"
  using assms
  by (simp add: mark_attendance_def emit_def commit_def Let_def)

lemma mark_clock_in:
  assumes "existing_attendance (session st) employee (date_of now) = None"
  shows "mark_attendance cfg ev now st employee h =
     (let att = \<lparr>employee_id = user_id employee, time_in = now, time_out = None,
                 status = classify cfg now, timestamp = now\<rparr>
      in (Inr \<lparr>success = True, message = Attendance_marked_as (classify cfg now),
               employee_name = Some (name employee), resp_status = Some (classify cfg now)\<rparr>,
          st\<lparr>session := session st @ [att], committed := session st @ [att],
             trace := trace st @ [Print (Face_matched (name employee) (user_id employee) h), Commit]
                      @ send_attendance_notification ev employee att None\<rparr>))"
  using assms by (simp add: mark_attendance_def emit_def commit_def Let_def)

lemma mark_status_kept:
  "map status (take (length (session st)) (session (snd (mark_attendance cfg ev now st employee h))))
     = map status (session st)"
proof (cases "existing_attendance (session st) employee (date_of now)")
  case None
  then show ?thesis by (simp add: mark_clock_in Let_def)
next
  case (Some existing)
  note ex = Some
  show ?thesis
  proof (cases "time_out existing")
    case (Some t)
    with ex show ?thesis by (simp add: mark_closed emit_def)
  next
    case None
    show ?thesis
    proof (cases "now - time_in existing < seconds 600")
      case True
      with ex None show ?thesis by (simp add: mark_too_soon emit_def)
    next
      case False
      then have ge: "seconds 600 \<le> now - time_in existing" by simp
      have "find (todays employee (date_of now)) (session st) = Some existing"
        using ex by (simp add: existing_attendance_def)
      then have "map status (update_first (todays employee (date_of now))
                   (set_time_out existing now) (session st)) = map status (session st)"
        by (rule map_update_first) (simp add: set_time_out_def)
      then show ?thesis
        using mark_clock_out_state(1) [OF ex None ge, of cfg ev h]
        by (simp add: length_update_first flip: take_map)
    qed
  qed
qed

section \<open>Lemmas on the concrete inputs\<close>

lemma row_sel:
  "employee_id (row i a b) = i" "time_in (row i a b) = a" "time_out (row i a b) = b"
  "status (row i a b) = ''present''" "timestamp (row i a b) = a"
  by (simp_all add: row_def)

lemma row_closed: "set_time_out (row i a b) t = row i a (Some t)"
  by (simp add: row_def set_time_out_def)

lemma ledger_sel:
  "users (ledger rows) = [alice, bob, carol, dave]" "session (ledger rows) = rows"
  "committed (ledger rows) = rows" "trace (ledger rows) = []"
  by (simp_all add: ledger_def)

lemma date_of_clock: "0 \<le> m \<Longrightarrow> 0 \<le> h \<Longrightarrow> h * 60 + m < 1440 \<Longrightarrow> date_of (clock d h m) = d"
  by (simp add: date_of_def clock_def combine_def minutes_def)

lemma clock_diff: "clock d h m - clock d h' m' = minutes ((h - h') * 60 + (m - m'))"
  by (simp add: clock_def combine_def minutes_def algebra_simps)

lemma existing_row:
  "timestamp a \<ge> combine today 0 \<Longrightarrow> employee_id a = user_id e \<Longrightarrow>
   existing_attendance (a # rows) e today = Some a"
  by (simp add: existing_attendance_def todays_def)

lemma clock_ge_midnight: "0 \<le> m \<Longrightarrow> 0 \<le> h \<Longrightarrow> combine d 0 \<le> clock d h m"
  by (simp add: clock_def combine_def minutes_def)

section \<open>Claims on the attendance state machine\<close>

text \<open>
  Claim C3. Once the day's record of an employee has \<^verbatim>\<open>time_out\<close> set, an
  accepted event for that employee answers "already marked" and leaves both the
  session and the committed rows as they were. In particular, after the event that
  closes an open record, every later accepted event of the same day finds the closed
  record, answers "already marked" and changes nothing: \<^verbatim>\<open>time_out\<close> is written
  once.
\<close>

theorem C3_closed_session_is_final:
  "(existing_attendance (session st) employee (date_of now) = Some existing \<and>
    time_out existing = Some t \<longrightarrow>
      (let r = mark_attendance cfg ev now st employee h
       in fst r = Inr \<lparr>success = True, message = Already_marked_attendance,
                       employee_name = Some (name employee),
                       resp_status = Some ''already_marked''\<rparr> \<and>
          session (snd r) = session st \<and> committed (snd r) = committed st)) \<and>
   (existing_attendance (session st) employee (date_of now) = Some existing \<and>
    time_out existing = None \<and> seconds 600 \<le> now - time_in existing \<and>
    date_of now' = date_of now \<longrightarrow>
      (let st1 = snd (mark_attendance cfg ev now st employee h);
           r = mark_attendance cfg ev now' st1 employee h'
       in existing_attendance (session st1) employee (date_of now')
            = Some (existing\<lparr>time_out := Some now\<rparr>) \<and>
          fst r = Inr \<lparr>success = True, message = Already_marked_attendance,
                       employee_name = Some (name employee),
                       resp_status = Some ''already_marked''\<rparr> \<and>
          session (snd r) = session st1 \<and> committed (snd r) = committed st1))"
proof (intro conjI impI)
  assume a: "existing_attendance (session st) employee (date_of now) = Some existing \<and>
    time_out existing = Some t"
  then show "let r = mark_attendance cfg ev now st employee h
       in fst r = Inr \<lparr>success = True, message = Already_marked_attendance,
                       employee_name = Some (name employee),
                       resp_status = Some ''already_marked''\<rparr> \<and>
          session (snd r) = session st \<and> committed (snd r) = committed st"
    by (simp add: mark_closed [of st employee now existing t] emit_def)
next
  assume a: "existing_attendance (session st) employee (date_of now) = Some existing \<and>
    time_out existing = None \<and> seconds 600 \<le> now - time_in existing \<and>
    date_of now' = date_of now"
  define st1 where "st1 = snd (mark_attendance cfg ev now st employee h)"
  have s1: "session st1 =
      update_first (todays employee (date_of now)) (set_time_out existing now) (session st)"
    unfolding st1_def using a by (intro mark_clock_out_state(1)) simp_all
  have ex1: "existing_attendance (session st1) employee (date_of now')
               = Some (set_time_out existing now)"
    using a by (simp add: s1 existing_after_close)
  have t1: "time_out (set_time_out existing now) = Some now"
    by (simp add: set_time_out_def)
  have "mark_attendance cfg ev now' st1 employee h' =
     (Inr \<lparr>success = True, message = Already_marked_attendance,
           employee_name = Some (name employee), resp_status = Some ''already_marked''\<rparr>,
      emit [Print (Face_matched (name employee) (user_id employee) h')] st1)"
    using ex1 t1 by (rule mark_closed)
  then show "let st1 = snd (mark_attendance cfg ev now st employee h);
           r = mark_attendance cfg ev now' st1 employee h'
       in existing_attendance (session st1) employee (date_of now')
            = Some (existing\<lparr>time_out := Some now\<rparr>) \<and>
          fst r = Inr \<lparr>success = True, message = Already_marked_attendance,
                       employee_name = Some (name employee),
                       resp_status = Some ''already_marked''\<rparr> \<and>
          session (snd r) = session st1 \<and> committed (snd r) = committed st1"
    using ex1 by (simp add: st1_def [symmetric] emit_def set_time_out_def)
qed

theorem C3_witness:
  "(let r = mark_attendance cfg0 env0 (clock 20000 17 5)
              (ledger [row 11 (clock 20000 9 0) (Some (clock 20000 17 0))]) alice (9 / 10)
    in fst r = Inr \<lparr>success = True, message = Already_marked_attendance,
                    employee_name = Some ''alice'', resp_status = Some ''already_marked''\<rparr> \<and>
       session (snd r) = [row 11 (clock 20000 9 0) (Some (clock 20000 17 0))] \<and>
       committed (snd r) = [row 11 (clock 20000 9 0) (Some (clock 20000 17 0))]) \<and>
   (let st1 = snd (mark_attendance cfg0 env0 (clock 20000 17 0)
                     (ledger [row 11 (clock 20000 9 0) None]) alice (9 / 10));
        r = mark_attendance cfg0 env0 (clock 20000 17 5) st1 alice (9 / 10)
    in session st1 = [row 11 (clock 20000 9 0) (Some (clock 20000 17 0))] \<and>
       fst r = Inr \<lparr>success = True, message = Already_marked_attendance,
                    employee_name = Some ''alice'', resp_status = Some ''already_marked''\<rparr> \<and>
       session (snd r) = [row 11 (clock 20000 9 0) (Some (clock 20000 17 0))] \<and>
       committed (snd r) = session (snd r))"
proof -
  have n: "name alice = ''alice''" "user_id alice = 11"
    by (simp_all add: alice_def)
  have e1: "existing_attendance
      (session (ledger [row 11 (clock 20000 9 0) (Some (clock 20000 17 0))])) alice
      (date_of (clock 20000 17 5)) = Some (row 11 (clock 20000 9 0) (Some (clock 20000 17 0)))"
    by (simp add: ledger_sel date_of_clock existing_row row_sel clock_ge_midnight n)
  have e2: "existing_attendance (session (ledger [row 11 (clock 20000 9 0) None])) alice
      (date_of (clock 20000 17 0)) = Some (row 11 (clock 20000 9 0) None)"
    by (simp add: ledger_sel date_of_clock existing_row row_sel clock_ge_midnight n)
  have d: "date_of (clock 20000 17 5) = date_of (clock 20000 17 0)"
    by (simp add: date_of_clock)
  have g: "seconds 600 \<le> clock 20000 17 0 - time_in (row 11 (clock 20000 9 0) None)"
    by (simp add: row_sel clock_diff minutes_def seconds_def)
  have s: "session (snd (mark_attendance cfg0 env0 (clock 20000 17 0)
                     (ledger [row 11 (clock 20000 9 0) None]) alice (9 / 10)))
           = [row 11 (clock 20000 9 0) (Some (clock 20000 17 0))]"
    using mark_clock_out_state(1) [OF e2 _ g, of cfg0 env0 "9 / 10"]
    by (simp add: row_sel row_closed ledger_sel todays_def n date_of_clock clock_ge_midnight)
  have c: "committed (snd (mark_attendance cfg0 env0 (clock 20000 17 0)
                     (ledger [row 11 (clock 20000 9 0) None]) alice (9 / 10)))
           = [row 11 (clock 20000 9 0) (Some (clock 20000 17 0))]"
    using mark_clock_out_state(2) [OF e2 _ g, of cfg0 env0 "9 / 10"]
    by (simp add: row_sel row_closed ledger_sel todays_def n date_of_clock clock_ge_midnight)
  show ?thesis
    using C3_closed_session_is_final
        [of "ledger [row 11 (clock 20000 9 0) (Some (clock 20000 17 0))]" alice
          "clock 20000 17 5" "row 11 (clock 20000 9 0) (Some (clock 20000 17 0))"
          "clock 20000 17 0" cfg0 env0 "9 / 10" "clock 20000 17 5" "9 / 10"]
      C3_closed_session_is_final
        [of "ledger [row 11 (clock 20000 9 0) None]" alice
          "clock 20000 17 0" "row 11 (clock 20000 9 0) None"
          "clock 20000 17 0" cfg0 env0 "9 / 10" "clock 20000 17 5" "9 / 10"]
      e1 e2 d g s c
    by (simp add: Let_def row_sel ledger_sel n)
qed

section \<open>More lemmas on the concrete inputs\<close>

lemma cfg0_sel:
  "FACE_RECOGNITION_THRESHOLD cfg0 = 3 / 4" "WORKING_HOURS_START cfg0 = minutes 540"
  "LATE_THRESHOLD_MINUTES cfg0 = 30"
  by (simp_all add: cfg0_def)

lemma alice_sel:
  "user_id alice = 11" "name alice = ''alice''" "email alice = ''alice@example.org''"
  "is_admin alice = False" "face_embedding alice = Some [9, 1]"
  by (simp_all add: alice_def)

lemma existing_none: "existing_attendance [] e today = None"
  by (simp add: existing_attendance_def)

section \<open>Claims on the minimum session duration and the status\<close>

text \<open>
  Claim C4. For an open record (\<^verbatim>\<open>time_out\<close> not set), an accepted event arriving
  exactly 600 seconds after \<^verbatim>\<open>time_in\<close> closes the record (the test is
  \<^verbatim>\<open>total_seconds() < 600\<close>, so 600 passes): \<^verbatim>\<open>time_out\<close> becomes \<open>now\<close>, the
  change is committed, and the answer is "clocked out" with the hours the model
  method returns. An event 599 seconds after \<^verbatim>\<open>time_in\<close> is rejected with
  "minimum time not met" and changes nothing.
\<close>

theorem C4_minimum_duration_boundary:
  assumes "existing_attendance (session st) employee (date_of now) = Some existing"
    and "time_out existing = None"
  shows "(now - time_in existing = seconds 600 \<longrightarrow>
            (let r = mark_attendance cfg ev now st employee h
             in session (snd r) =
                  update_first (todays employee (date_of now))
                    (existing\<lparr>time_out := Some now\<rparr>) (session st) \<and>
                committed (snd r) = session (snd r) \<and>
                existing_attendance (session (snd r)) employee (date_of now)
                  = Some (existing\<lparr>time_out := Some now\<rparr>) \<and>
                (\<forall>hours. calculate_hours_worked ev (existing\<lparr>time_out := Some now\<rparr>) = Inr hours \<longrightarrow>
                   fst r = Inr \<lparr>success = True, message = Clocked_out_successfully hours,
                                employee_name = Some (name employee),
                                resp_status = Some ''clocked_out''\<rparr>))) \<and>
         (now - time_in existing = seconds 600 - seconds 1 \<longrightarrow>
            (let r = mark_attendance cfg ev now st employee h
             in fst r = Inr \<lparr>success = False, message = Cannot_clock_out_yet 9,
                             employee_name = Some (name employee),
                             resp_status = Some ''minimum_time_not_met''\<rparr> \<and>
                session (snd r) = session st \<and> committed (snd r) = committed st))"
proof (intro conjI impI)
  assume d: "now - time_in existing = seconds 600"
  then have ge: "seconds 600 \<le> now - time_in existing" by simp
  have c: "set_time_out existing now = existing\<lparr>time_out := Some now\<rparr>"
    by (simp add: set_time_out_def)
  show "let r = mark_attendance cfg ev now st employee h
             in session (snd r) =
                  update_first (todays employee (date_of now))
                    (existing\<lparr>time_out := Some now\<rparr>) (session st) \<and>
                committed (snd r) = session (snd r) \<and>
                existing_attendance (session (snd r)) employee (date_of now)
                  = Some (existing\<lparr>time_out := Some now\<rparr>) \<and>
                (\<forall>hours. calculate_hours_worked ev (existing\<lparr>time_out := Some now\<rparr>) = Inr hours \<longrightarrow>
                   fst r = Inr \<lparr>success = True, message = Clocked_out_successfully hours,
                                employee_name = Some (name employee),
                                resp_status = Some ''clocked_out''\<rparr>)"
    using mark_clock_out_state(1,2) [OF assms ge, of cfg ev h]
      mark_clock_out_response [OF assms ge, of ev _ cfg h]
      existing_after_close [OF assms(1), of now]
    by (simp add: Let_def c)
next
  assume d: "now - time_in existing = seconds 600 - seconds 1"
  then have lt: "now - time_in existing < seconds 600" by (simp add: seconds_def)
  have m: "int_minutes (now - time_in existing) = 9"
    by (simp add: d int_minutes_def seconds_def)
  show "let r = mark_attendance cfg ev now st employee h
             in fst r = Inr \<lparr>success = False, message = Cannot_clock_out_yet 9,
                             employee_name = Some (name employee),
                             resp_status = Some ''minimum_time_not_met''\<rparr> \<and>
                session (snd r) = session st \<and> committed (snd r) = committed st"
    using mark_too_soon [OF assms lt, of cfg ev h] by (simp add: m emit_def)
qed

theorem C4_witness:
  "(let r = mark_attendance cfg0 env0 (clock 20000 9 10)
              (ledger [row 11 (clock 20000 9 0) None]) alice (9 / 10)
    in session (snd r) = [row 11 (clock 20000 9 0) (Some (clock 20000 9 10))] \<and>
       committed (snd r) = session (snd r) \<and>
       fst r = Inr \<lparr>success = True, message = Clocked_out_successfully (1 / 6),
                    employee_name = Some ''alice'', resp_status = Some ''clocked_out''\<rparr>) \<and>
   (let r = mark_attendance cfg0 env0 (clock 20000 9 10 - seconds 1)
              (ledger [row 11 (clock 20000 9 0) None]) alice (9 / 10)
    in fst r = Inr \<lparr>success = False, message = Cannot_clock_out_yet 9,
                    employee_name = Some ''alice'',
                    resp_status = Some ''minimum_time_not_met''\<rparr> \<and>
       session (snd r) = [row 11 (clock 20000 9 0) None] \<and>
       committed (snd r) = [row 11 (clock 20000 9 0) None])"
proof -
  let ?st = "ledger [row 11 (clock 20000 9 0) None]"
  let ?a = "row 11 (clock 20000 9 0) None"
  have d2: "date_of (clock 20000 9 10 - seconds 1) = 20000"
    by (simp add: date_of_def clock_def combine_def minutes_def seconds_def)
  have e1: "existing_attendance (session ?st) alice (date_of (clock 20000 9 10)) = Some ?a"
    by (simp add: ledger_sel date_of_clock existing_row row_sel clock_ge_midnight alice_sel)
  have e2: "existing_attendance (session ?st) alice (date_of (clock 20000 9 10 - seconds 1))
              = Some ?a"
    by (simp add: d2 ledger_sel existing_row row_sel clock_ge_midnight alice_sel)
  have o: "time_out ?a = None" by (simp add: row_sel)
  have t1: "clock 20000 9 10 - time_in ?a = seconds 600"
    by (simp add: row_sel clock_diff minutes_def seconds_def)
  have t2: "clock 20000 9 10 - seconds 1 - time_in ?a = seconds 600 - seconds 1"
    by (simp add: row_sel clock_def combine_def minutes_def seconds_def)
  have u: "?a\<lparr>time_out := Some (clock 20000 9 10)\<rparr>
             = row 11 (clock 20000 9 0) (Some (clock 20000 9 10))"
    by (simp add: row_def)
  have h: "calculate_hours_worked env0 (row 11 (clock 20000 9 0) (Some (clock 20000 9 10)))
             = Inr (1 / 6)"
    by (simp add: env0_def row_sel clock_diff minutes_def)
  have td: "todays alice (date_of (clock 20000 9 10)) ?a"
    by (simp add: todays_def row_sel alice_sel date_of_clock clock_ge_midnight)
  show ?thesis
    using C4_minimum_duration_boundary [OF e1 o, of cfg0 env0 "9 / 10"]
      C4_minimum_duration_boundary [OF e2 o, of cfg0 env0 "9 / 10"]
      t1 t2 h td
    by (simp add: Let_def u ledger_sel alice_sel)
qed

text \<open>
  Claim C5. For an open record, an accepted event with \<open>now - time_in\<close> below 600
  seconds is rejected: the answer has \<^verbatim>\<open>success = False\<close>, the status
  \<^verbatim>\<open>minimum_time_not_met\<close> and the elapsed whole minutes in its message, and the
  state is the one before but for the log line of the match, so that the rows (their
  \<^verbatim>\<open>time_in\<close>, \<^verbatim>\<open>time_out\<close> and \<^verbatim>\<open>status\<close>) are unchanged and nothing is
  committed.
\<close>

theorem C5_too_soon_rejected:
  assumes "existing_attendance (session st) employee (date_of now) = Some existing"
    and "time_out existing = None"
    and "now - time_in existing < seconds 600"
  shows "mark_attendance cfg ev now st employee h =
           (Inr \<lparr>success = False,
                 message = Cannot_clock_out_yet (int_minutes (now - time_in existing)),
                 employee_name = Some (name employee),
                 resp_status = Some ''minimum_time_not_met''\<rparr>,
            st\<lparr>trace := trace st @
                  [Print (Face_matched (name employee) (user_id employee) h)]\<rparr>)"
  using mark_too_soon [OF assms, of cfg ev h] by (simp add: emit_def)

theorem C5_witness:
  "mark_attendance cfg0 env0 (clock 20000 9 5) (ledger [row 11 (clock 20000 9 0) None])
     alice (9 / 10) =
     (Inr \<lparr>success = False, message = Cannot_clock_out_yet 5,
           employee_name = Some ''alice'', resp_status = Some ''minimum_time_not_met''\<rparr>,
      \<lparr>users = [alice, bob, carol, dave],
       session = [row 11 (clock 20000 9 0) None],
       committed = [row 11 (clock 20000 9 0) None],
       trace = [Print (Face_matched ''alice'' 11 (9 / 10))]\<rparr>)"
proof -
  let ?st = "ledger [row 11 (clock 20000 9 0) None]"
  let ?a = "row 11 (clock 20000 9 0) None"
  have e: "existing_attendance (session ?st) alice (date_of (clock 20000 9 5)) = Some ?a"
    by (simp add: ledger_sel date_of_clock existing_row row_sel clock_ge_midnight alice_sel)
  have o: "time_out ?a = None" by (simp add: row_sel)
  have t: "clock 20000 9 5 - time_in ?a < seconds 600"
    by (simp add: row_sel clock_diff minutes_def seconds_def)
  have m: "int_minutes (clock 20000 9 5 - time_in ?a) = 5"
    by (simp add: row_sel clock_diff minutes_def int_minutes_def)
  show ?thesis
    using C5_too_soon_rejected [OF e o t, of cfg0 env0 "9 / 10"]
    by (simp add: m alice_sel ledger_def)
qed

text \<open>
  Claim C6. When no record of the day exists, the accepted event appends and commits a
  record whose status is \<^verbatim>\<open>late\<close> if and only if \<open>now\<close> is after today's
  \<^verbatim>\<open>WORKING_HOURS_START\<close> plus \<^verbatim>\<open>LATE_THRESHOLD_MINUTES\<close>, and \<^verbatim>\<open>present\<close>
  otherwise. No accepted event changes the status of a record that is already
  stored: the status is fixed at creation.
\<close>

theorem C6_status_at_creation:
  "(existing_attendance (session st) employee (date_of now) = None \<longrightarrow>
      (let r = mark_attendance cfg ev now st employee h;
           late = (now > combine (date_of now) (WORKING_HOURS_START cfg)
                          + minutes (LATE_THRESHOLD_MINUTES cfg));
           s = (if late then ''late'' else ''present'')
       in session (snd r) = session st @
            [\<lparr>employee_id = user_id employee, time_in = now, time_out = None,
              status = s, timestamp = now\<rparr>] \<and>
          committed (snd r) = session (snd r) \<and>
          fst r = Inr \<lparr>success = True, message = Attendance_marked_as s,
                       employee_name = Some (name employee), resp_status = Some s\<rparr>)) \<and>
   map status (take (length (session st))
     (session (snd (mark_attendance cfg ev now st employee h)))) = map status (session st)"
proof (intro conjI impI)
  assume "existing_attendance (session st) employee (date_of now) = None"
  then show "let r = mark_attendance cfg ev now st employee h;
           late = (now > combine (date_of now) (WORKING_HOURS_START cfg)
                          + minutes (LATE_THRESHOLD_MINUTES cfg));
           s = (if late then ''late'' else ''present'')
       in session (snd r) = session st @
            [\<lparr>employee_id = user_id employee, time_in = now, time_out = None,
              status = s, timestamp = now\<rparr>] \<and>
          committed (snd r) = session (snd r) \<and>
          fst r = Inr \<lparr>success = True, message = Attendance_marked_as s,
                       employee_name = Some (name employee), resp_status = Some s\<rparr>"
    by (simp add: mark_clock_in Let_def classify_def late_time_def)
next
  show "map status (take (length (session st))
     (session (snd (mark_attendance cfg ev now st employee h)))) = map status (session st)"
    by (rule mark_status_kept)
qed

theorem C6_witness:
  "(let r = mark_attendance cfg0 env0 (clock 20000 9 15) (ledger []) alice (9 / 10)
    in session (snd r) = [row 11 (clock 20000 9 15) None] \<and>
       committed (snd r) = session (snd r) \<and>
       fst r = Inr \<lparr>success = True, message = Attendance_marked_as ''present'',
                    employee_name = Some ''alice'', resp_status = Some ''present''\<rparr>) \<and>
   (let r = mark_attendance cfg0 env0 (clock 20000 9 31) (ledger []) alice (9 / 10)
    in session (snd r) = [(row 11 (clock 20000 9 31) None)\<lparr>status := ''late''\<rparr>] \<and>
       committed (snd r) = session (snd r) \<and>
       fst r = Inr \<lparr>success = True, message = Attendance_marked_as ''late'',
                    employee_name = Some ''alice'', resp_status = Some ''late''\<rparr>)"
proof -
  have l1: "\<not> clock 20000 9 15 > combine (date_of (clock 20000 9 15)) (WORKING_HOURS_START cfg0)
                          + minutes (LATE_THRESHOLD_MINUTES cfg0)"
    by (simp add: date_of_clock cfg0_sel) (simp add: clock_def combine_def minutes_def)
  have l2: "clock 20000 9 31 > combine (date_of (clock 20000 9 31)) (WORKING_HOURS_START cfg0)
                          + minutes (LATE_THRESHOLD_MINUTES cfg0)"
    by (simp add: date_of_clock cfg0_sel) (simp add: clock_def combine_def minutes_def)
  show ?thesis
    using C6_status_at_creation [of "ledger []" alice "clock 20000 9 15" cfg0 env0 "9 / 10"]
      C6_status_at_creation [of "ledger []" alice "clock 20000 9 31" cfg0 env0 "9 / 10"]
      l1 l2
    by (simp add: Let_def ledger_sel existing_none alice_sel row_def)
qed

section \<open>Lemmas on the matcher\<close>

lemma find_best_match_succeeds:
  "find_best_match ev thr p es acc = Inr r \<Longrightarrow>
   \<forall>u\<in>set es. has_embedding u \<longrightarrow> (\<exists>s. similarity ev thr p u = Inr s)"
proof (induction es arbitrary: acc)
  case Nil
  then show ?case by simp
next
  case (Cons x es)
  obtain bm hs where acc: "acc = (bm, hs)" by (cases acc)
  show ?case
  proof (cases "has_embedding x")
    case False
    with Cons.prems acc have "find_best_match ev thr p es (bm, hs) = Inr r" by simp
    from Cons.IH [OF this] False show ?thesis by simp
  next
    case True
    show ?thesis
    proof (cases "similarity ev thr p x")
      case (Inl e)
      with Cons.prems acc True show ?thesis by simp
    next
      case (Inr s)
      with Cons.prems acc True
      have "\<exists>acc'. find_best_match ev thr p es acc' = Inr r"
        by (auto split: if_splits)
      then obtain acc' where "find_best_match ev thr p es acc' = Inr r" ..
      from Cons.IH [OF this] Inr show ?thesis by simp
    qed
  qed
qed

lemma find_best_match_scan:
  assumes "\<forall>u\<in>set es. has_embedding u \<longrightarrow> similarity ev thr p u = Inr (score u)"
  shows "((\<forall>u\<in>set (filter has_embedding es). score u \<le> hs) \<and>
          find_best_match ev thr p es (bm, hs) = Inr (bm, hs))
       \<or> (\<exists>pre e post. filter has_embedding es = pre @ e # post \<and>
             find_best_match ev thr p es (bm, hs) = Inr (Some e, score e) \<and>
             hs < score e \<and>
             (\<forall>u\<in>set pre. score u < score e) \<and> (\<forall>u\<in>set post. score u \<le> score e))"
  using assms
proof (induction es arbitrary: bm hs)
  case Nil
  then show ?case by simp
next
  case (Cons x es)
  then have sc: "\<forall>u\<in>set es. has_embedding u \<longrightarrow> similarity ev thr p u = Inr (score u)"
    by simp
  show ?case
  proof (cases "has_embedding x")
    case False
    with Cons.IH [OF sc, of hs bm] show ?thesis by simp
  next
    case True
    with Cons.prems have sx: "similarity ev thr p x = Inr (score x)" by simp
    show ?thesis
    proof (cases "score x > hs")
      case gt: True
      from Cons.IH [OF sc, of "score x" "Some x"]
      show ?thesis
      proof (elim disjE exE conjE)
        assume a: "\<forall>u\<in>set (filter has_embedding es). score u \<le> score x"
          and b: "find_best_match ev thr p es (Some x, score x) = Inr (Some x, score x)"
        have "filter has_embedding (x # es) = [] @ x # filter has_embedding es"
          using True by simp
        moreover have "find_best_match ev thr p (x # es) (bm, hs) = Inr (Some x, score x)"
          using True sx gt b by simp
        ultimately have "\<exists>pre e post. filter has_embedding (x # es) = pre @ e # post \<and>
             find_best_match ev thr p (x # es) (bm, hs) = Inr (Some e, score e) \<and>
             hs < score e \<and>
             (\<forall>u\<in>set pre. score u < score e) \<and> (\<forall>u\<in>set post. score u \<le> score e)"
          using a gt
          by (intro exI [of _ "[]"] exI [of _ x] exI [of _ "filter has_embedding es"]) simp
        then show ?thesis by (rule disjI2)
      next
        fix pre e post
        assume a: "filter has_embedding es = pre @ e # post"
          and b: "find_best_match ev thr p es (Some x, score x) = Inr (Some e, score e)"
          and c: "score x < score e"
          and d: "\<forall>u\<in>set pre. score u < score e" "\<forall>u\<in>set post. score u \<le> score e"
        have "filter has_embedding (x # es) = (x # pre) @ e # post"
          using True a by simp
        moreover have "find_best_match ev thr p (x # es) (bm, hs) = Inr (Some e, score e)"
          using True sx gt b by simp
        moreover have "\<forall>u\<in>set (x # pre). score u < score e" using c d by simp
        moreover have "hs < score e" using gt c by simp
        ultimately have "\<exists>pre e post. filter has_embedding (x # es) = pre @ e # post \<and>
             find_best_match ev thr p (x # es) (bm, hs) = Inr (Some e, score e) \<and>
             hs < score e \<and>
             (\<forall>u\<in>set pre. score u < score e) \<and> (\<forall>u\<in>set post. score u \<le> score e)"
          using d(2)
          by (intro exI [of _ "x # pre"] exI [of _ e] exI [of _ post]) simp
        then show ?thesis by (rule disjI2)
      qed
    next
      case le: False
      from Cons.IH [OF sc, of hs bm]
      show ?thesis
      proof (elim disjE exE conjE)
        assume a: "\<forall>u\<in>set (filter has_embedding es). score u \<le> hs"
          and b: "find_best_match ev thr p es (bm, hs) = Inr (bm, hs)"
        have "find_best_match ev thr p (x # es) (bm, hs) = Inr (bm, hs)"
          using True sx le b by simp
        moreover have "\<forall>u\<in>set (filter has_embedding (x # es)). score u \<le> hs"
          using a le True by simp
        ultimately show ?thesis by (intro disjI1 conjI)
      next
        fix pre e post
        assume a: "filter has_embedding es = pre @ e # post"
          and b: "find_best_match ev thr p es (bm, hs) = Inr (Some e, score e)"
          and c: "hs < score e"
          and d: "\<forall>u\<in>set pre. score u < score e" "\<forall>u\<in>set post. score u \<le> score e"
        have "filter has_embedding (x # es) = (x # pre) @ e # post"
          using True a by simp
        moreover have "find_best_match ev thr p (x # es) (bm, hs) = Inr (Some e, score e)"
          using True sx le b by simp
        moreover have "\<forall>u\<in>set (x # pre). score u < score e" using c d le by simp
        ultimately have "\<exists>pre e post. filter has_embedding (x # es) = pre @ e # post \<and>
             find_best_match ev thr p (x # es) (bm, hs) = Inr (Some e, score e) \<and>
             hs < score e \<and>
             (\<forall>u\<in>set pre. score u < score e) \<and> (\<forall>u\<in>set post. score u \<le> score e)"
          using d(2) c
          by (intro exI [of _ "x # pre"] exI [of _ e] exI [of _ post]) simp
        then show ?thesis by (rule disjI2)
      qed
    qed
  qed
qed

lemma candidates_filter: "filter has_embedding (employees us) = candidates us"
  by (simp add: candidates_def)

lemma candidates_subset: "u \<in> set (candidates us) \<Longrightarrow> u \<in> set (employees us) \<and> has_embedding u"
  by (simp add: candidates_def)

section \<open>The endpoint around the matcher\<close>

lemma verify_face_probe:
  assumes "d ''image'' = Some v" and "get_image v = Inr img"
    and "process_image ev img = Inr (Some box, Some probe)"
  shows "verify_face cfg ev now st (Some d) =
     (case identify (FACE_RECOGNITION_THRESHOLD cfg) ev probe (users st) of
        Inl e \<Rightarrow>
          (\<lparr>success = False, message = Error_message e,
            employee_name = None, resp_status = None\<rparr>,
           emit [Print (Error_in_face_verification e)]
             (rollback (emit [Process_image img] st)))
      | Inr (None, hs) \<Rightarrow>
          (\<lparr>success = False, message = Face_not_recognized,
            employee_name = None, resp_status = None\<rparr>,
           emit [Print (No_face_match hs (FACE_RECOGNITION_THRESHOLD cfg))]
             (emit [Process_image img] st))
      | Inr (Some (employee, h), hs) \<Rightarrow>
          (case mark_attendance cfg ev now (emit [Process_image img] st) employee h of
             (Inr r, st') \<Rightarrow> (r, st')
           | (Inl e, st') \<Rightarrow>
               (\<lparr>success = False, message = Error_message e,
                 employee_name = None, resp_status = None\<rparr>,
                emit [Print (Error_in_face_verification e)] (rollback st'))))"
  using assms
  by (simp add: verify_face_def try_block_def emit_def Let_def
      split: sum.splits option.splits prod.splits)

lemma find_best_match_selected:
  "find_best_match ev thr p es (bm, hs) = Inr (Some e, h) \<Longrightarrow>
   bm = Some e \<or> (e \<in> set es \<and> has_embedding e)"
proof (induction es arbitrary: bm hs)
  case Nil
  then show ?case by simp
next
  case (Cons x es)
  show ?case
  proof (cases "has_embedding x")
    case False
    with Cons.prems have "find_best_match ev thr p es (bm, hs) = Inr (Some e, h)" by simp
    from Cons.IH [OF this] show ?thesis by auto
  next
    case True
    show ?thesis
    proof (cases "similarity ev thr p x")
      case (Inl err)
      with Cons.prems True show ?thesis by simp
    next
      case (Inr s)
      show ?thesis
      proof (cases "s > hs")
        case True
        with Cons.prems \<open>has_embedding x\<close> Inr
        have "find_best_match ev thr p es (Some x, s) = Inr (Some e, h)" by simp
        from Cons.IH [OF this] \<open>has_embedding x\<close> show ?thesis by auto
      next
        case False
        with Cons.prems \<open>has_embedding x\<close> Inr
        have "find_best_match ev thr p es (bm, hs) = Inr (Some e, h)" by simp
        from Cons.IH [OF this] show ?thesis by auto
      qed
    qed
  qed
qed

lemma scan_from_start:
  assumes "\<forall>u\<in>set (candidates us). similarity ev thr p u = Inr (score u)"
  shows "((\<forall>u\<in>set (candidates us). score u \<le> 0) \<and>
          find_best_match ev thr p (employees us) (None, 0) = Inr (None, 0))
       \<or> (\<exists>pre e post. candidates us = pre @ e # post \<and>
             find_best_match ev thr p (employees us) (None, 0) = Inr (Some e, score e) \<and>
             0 < score e \<and>
             (\<forall>u\<in>set pre. score u < score e) \<and> (\<forall>u\<in>set post. score u \<le> score e))"
proof -
  have "\<forall>u\<in>set (employees us). has_embedding u \<longrightarrow> similarity ev thr p u = Inr (score u)"
    using assms by (simp add: candidates_def)
  from find_best_match_scan [OF this, of 0 None] show ?thesis
    by (simp only: candidates_filter)
qed

lemma Max_of_first_best:
  assumes "cs = pre @ e # post"
    and "\<forall>u\<in>set pre. score u < score e" and "\<forall>u\<in>set post. score u \<le> score e"
  shows "Max (score ` set cs) = score (e::user)"
proof (rule Max_eqI)
  show "finite (score ` set cs)" by simp
  show "score e \<in> score ` set cs" using assms(1) by simp
  fix y assume "y \<in> score ` set cs"
  then obtain u where "u \<in> set cs" "y = score u" by auto
  with assms show "y \<le> score e" by (auto simp: less_imp_le)
qed

lemma identify_iff:
  assumes "\<forall>u\<in>set (candidates us). similarity ev thr p u = Inr (score u)"
  shows "(\<exists>m h. identify thr ev p us = Inr (Some m, h)) \<longleftrightarrow>
         candidates us \<noteq> [] \<and> 0 < Max (score ` set (candidates us)) \<and>
         thr \<le> Max (score ` set (candidates us))"
  using scan_from_start [OF assms]
proof (elim disjE exE conjE)
  assume le: "\<forall>u\<in>set (candidates us). score u \<le> 0"
    and r: "find_best_match ev thr p (employees us) (None, 0) = Inr (None, 0)"
  from r have "identify thr ev p us = Inr (None, 0)" by (simp add: identify_def)
  moreover have "\<not> (candidates us \<noteq> [] \<and> 0 < Max (score ` set (candidates us)))"
  proof
    assume a: "candidates us \<noteq> [] \<and> 0 < Max (score ` set (candidates us))"
    then have "Max (score ` set (candidates us)) \<le> 0"
      using le by (subst Max_le_iff) auto
    with a show False by simp
  qed
  ultimately show ?thesis by auto
next
  fix pre e post
  assume c: "candidates us = pre @ e # post"
    and r: "find_best_match ev thr p (employees us) (None, 0) = Inr (Some e, score e)"
    and pos: "0 < score e"
    and lo: "\<forall>u\<in>set pre. score u < score e" and hi: "\<forall>u\<in>set post. score u \<le> score e"
  have m: "Max (score ` set (candidates us)) = score e"
    by (rule Max_of_first_best [OF c lo hi])
  have ne: "candidates us \<noteq> []" using c by simp
  show ?thesis
    using r pos by (simp add: identify_def m ne)
qed

section \<open>Evaluation of the matcher on the concrete inputs\<close>

lemma sim_alice: "similarity env0 thr [10, 0] alice = Inr (9 / 10)"
  by (simp add: similarity_def env0_def alice_def score0_def)

lemma sim_bob: "similarity env0 thr [10, 0] bob = Inr (9 / 10)"
  by (simp add: similarity_def env0_def bob_def score0_def)

lemma sim_dave: "similarity env0 thr [10, 0] dave = Inr (1 / 2)"
  by (simp add: similarity_def env0_def dave_def score0_def)

lemma sim_erin: "similarity env0 thr [10, 0] erin = Inr 0"
  by (simp add: similarity_def env0_def erin_def score0_def)

lemma sim_frank: "similarity env0 thr [10, 0] frank = Inr 0"
  by (simp add: similarity_def env0_def frank_def score0_def)

lemma get_image_request: "get_image (JString ''data:image/png;base64,AAAA'') = Inr ''AAAA''"
  by (simp add: get_image_def startswith_def)

lemma process_image_env0: "process_image env0 img = Inr (Some [0, 0, 10, 10], Some [10, 0])"
  by (simp add: env0_def)

lemma has_embedding_users:
  "has_embedding alice" "has_embedding bob" "\<not> has_embedding carol" "has_embedding dave"
  "has_embedding erin" "has_embedding frank" "has_embedding grace"
  by (simp_all add: has_embedding_def alice_def bob_def carol_def dave_def erin_def
      frank_def grace_def)

lemma not_admin_users:
  "\<not> is_admin alice" "\<not> is_admin bob" "\<not> is_admin carol" "\<not> is_admin dave"
  "\<not> is_admin erin" "\<not> is_admin frank" "\<not> is_admin grace"
  by (simp_all add: alice_def bob_def carol_def dave_def erin_def frank_def grace_def)

lemma users_distinct:
  "alice \<noteq> bob" "alice \<noteq> dave" "bob \<noteq> dave" "bob \<noteq> alice" "dave \<noteq> alice" "dave \<noteq> bob"
  by (simp_all add: alice_def bob_def dave_def)

lemma candidates_staff: "candidates [alice, bob, carol, dave] = [alice, bob, dave]"
  by (simp add: candidates_def employees_def has_embedding_users not_admin_users)

lemma employees_staff: "employees [alice, bob, carol, dave] = [alice, bob, carol, dave]"
  by (simp add: employees_def not_admin_users)

lemma scores_staff:
  "\<forall>u\<in>set (candidates [alice, bob, carol, dave]).
     similarity env0 (3 / 4) [10, 0] u = Inr (if u = dave then 1 / 2 else 9 / 10)"
  by (simp add: candidates_staff sim_alice sim_bob sim_dave users_distinct)

lemma best_staff:
  "find_best_match env0 (3 / 4) [10, 0] (employees [alice, bob, carol, dave]) (None, 0)
     = Inr (Some alice, 9 / 10)"
  by (simp add: employees_staff has_embedding_users sim_alice sim_bob sim_dave)

lemma identify_staff:
  "identify (3 / 4) env0 [10, 0] [alice, bob, carol, dave]
     = Inr (Some (alice, 9 / 10), 9 / 10)"
  by (simp add: identify_def best_staff)

section \<open>Claims on the matcher\<close>

text \<open>
  Claim C1, as amended. The scan starts from \<^verbatim>\<open>highest_similarity = 0\<close> and
  \<^verbatim>\<open>best_match = None\<close> and replaces them only by a strictly higher score, and
  the match is accepted only when \<^verbatim>\<open>best_match\<close> is set. So, when every comparison
  returns a score, identification accepts if and only if there is a candidate (a
  non-admin user with a stored embedding), the best score over the candidates is
  above 0, and the best score is at least the threshold. For a threshold above 0 this
  is: accepted if and only if the best score is at least the threshold, the boundary
  included. With no candidate the result is the rejection, and the endpoint answers
  "Face not recognized".
\<close>

theorem C1_accept_iff_positive_best_reaches_threshold:
  assumes "\<forall>u\<in>set (candidates us). similarity ev thr p u = Inr (score u)"
  shows "((\<exists>m h. identify thr ev p us = Inr (Some m, h)) \<longleftrightarrow>
            candidates us \<noteq> [] \<and> 0 < Max (score ` set (candidates us)) \<and>
            thr \<le> Max (score ` set (candidates us))) \<and>
         (0 < thr \<longrightarrow>
            ((\<exists>m h. identify thr ev p us = Inr (Some m, h)) \<longleftrightarrow>
               candidates us \<noteq> [] \<and> thr \<le> Max (score ` set (candidates us)))) \<and>
         (candidates us = [] \<longrightarrow> identify thr ev p us = Inr (None, 0)) \<and>
         (candidates (users st) = [] \<and> d ''image'' = Some v \<and> get_image v = Inr img \<and>
          process_image ev' img = Inr (Some box, Some probe) \<longrightarrow>
            fst (verify_face cfg ev' now st (Some d)) =
              \<lparr>success = False, message = Face_not_recognized,
               employee_name = None, resp_status = None\<rparr>)"
proof (intro conjI impI)
  show "(\<exists>m h. identify thr ev p us = Inr (Some m, h)) \<longleftrightarrow>
            candidates us \<noteq> [] \<and> 0 < Max (score ` set (candidates us)) \<and>
            thr \<le> Max (score ` set (candidates us))"
    by (rule identify_iff [OF assms])
next
  assume "0 < thr"
  then show "(\<exists>m h. identify thr ev p us = Inr (Some m, h)) \<longleftrightarrow>
               candidates us \<noteq> [] \<and> thr \<le> Max (score ` set (candidates us))"
    using identify_iff [OF assms] by auto
next
  assume "candidates us = []"
  with scan_from_start [OF assms] show "identify thr ev p us = Inr (None, 0)"
    by (auto simp: identify_def)
next
  assume a: "candidates (users st) = [] \<and> d ''image'' = Some v \<and> get_image v = Inr img \<and>
          process_image ev' img = Inr (Some box, Some probe)"
  have "\<forall>u\<in>set (candidates (users st)).
          similarity ev' (FACE_RECOGNITION_THRESHOLD cfg) probe u = Inr 0"
    using a by simp
  from scan_from_start [OF this] a
  have "identify (FACE_RECOGNITION_THRESHOLD cfg) ev' probe (users st) = Inr (None, 0)"
    by (auto simp: identify_def)
  with a show "fst (verify_face cfg ev' now st (Some d)) =
              \<lparr>success = False, message = Face_not_recognized,
               employee_name = None, resp_status = None\<rparr>"
    by (simp add: verify_face_probe [of d v img ev' box probe])
qed

theorem C1_witness:
  "(\<exists>m h. identify (3 / 4) env0 [10, 0] [alice, bob, carol, dave] = Inr (Some m, h)) \<and>
   3 / 4 \<le> Max ((\<lambda>u. if u = dave then 1 / 2 else (9 / 10 :: real)) `
            set (candidates [alice, bob, carol, dave])) \<and>
   \<not> (\<exists>m h. identify (3 / 4) env0 [10, 0] [dave] = Inr (Some m, h)) \<and>
   identify (3 / 4) env0 [10, 0] [carol] = Inr (None, 0) \<and>
   fst (verify_face cfg0 env0 (clock 20000 9 0) (roster [carol]) request0) =
     \<lparr>success = False, message = Face_not_recognized,
      employee_name = None, resp_status = None\<rparr>"
proof -
  let ?score = "\<lambda>u. if u = dave then 1 / 2 else (9 / 10 :: real)"
  have m: "Max (?score ` set (candidates [alice, bob, carol, dave])) = 9 / 10"
    by (simp add: candidates_staff users_distinct)
  have cd: "candidates [dave] = [dave]"
    by (simp add: candidates_def employees_def has_embedding_users not_admin_users)
  have sd: "\<forall>u\<in>set (candidates [dave]). similarity env0 (3 / 4) [10, 0] u = Inr (?score u)"
    by (simp add: cd sim_dave)
  have cc: "candidates [carol] = []"
    by (simp add: candidates_def employees_def has_embedding_users not_admin_users)
  have sc: "\<forall>u\<in>set (candidates [carol]). similarity env0 (3 / 4) [10, 0] u = Inr (?score u)"
    by (simp add: cc)
  have r: "candidates (users (roster [carol])) = []" by (simp add: roster_def cc)
  have i: "[''image'' \<mapsto> JString ''data:image/png;base64,AAAA''] ''image''
             = Some (JString ''data:image/png;base64,AAAA'')" by simp
  note A = C1_accept_iff_positive_best_reaches_threshold [OF scores_staff]
  note B = C1_accept_iff_positive_best_reaches_threshold [OF sd]
  note C = C1_accept_iff_positive_best_reaches_threshold [OF sc,
      of "roster [carol]" "[''image'' \<mapsto> JString ''data:image/png;base64,AAAA'']"
        "JString ''data:image/png;base64,AAAA''" "''AAAA''" env0 "[0, 0, 10, 10]" "[10, 0]"
        cfg0 "clock 20000 9 0"]
  have 1: "\<exists>m h. identify (3 / 4) env0 [10, 0] [alice, bob, carol, dave] = Inr (Some m, h)"
    using A m by (simp add: candidates_staff)
  have 2: "\<not> (\<exists>m h. identify (3 / 4) env0 [10, 0] [dave] = Inr (Some m, h))"
    using B by (simp add: cd)
  have 3: "identify (3 / 4) env0 [10, 0] [carol] = Inr (None, 0)"
    using C cc by simp
  have 4: "fst (verify_face cfg0 env0 (clock 20000 9 0) (roster [carol]) request0) =
     \<lparr>success = False, message = Face_not_recognized,
      employee_name = None, resp_status = None\<rparr>"
    using C r i get_image_request process_image_env0 by (simp add: request0_def)
  have 5: "3 / 4 \<le> Max (?score ` set (candidates [alice, bob, carol, dave]))"
    by (simp only: m)
  show ?thesis
    by (rule conjI [OF 1 conjI [OF 5 conjI [OF 2 conjI [OF 3 4]]]])
qed

text \<open>
  The claim as stated, for every threshold, fails at the threshold 0: the only
  candidate scores 0, the best score reaches the threshold, and the endpoint answers
  "Face not recognized".
\<close>

theorem C1_counterexample:
  "candidates [erin] = [erin] \<and>
   similarity env0 0 [10, 0] erin = Inr 0 \<and>
   FACE_RECOGNITION_THRESHOLD cfg_zero = 0 \<and>
   identify 0 env0 [10, 0] [erin] = Inr (None, 0) \<and>
   fst (verify_face cfg_zero env0 (clock 20000 9 0) (roster [erin]) request0) =
     \<lparr>success = False, message = Face_not_recognized,
      employee_name = None, resp_status = None\<rparr>"
proof -
  have c: "candidates [erin] = [erin]"
    by (simp add: candidates_def employees_def has_embedding_users not_admin_users)
  have i: "identify 0 env0 [10, 0] [erin] = Inr (None, 0)"
    by (simp add: identify_def employees_def has_embedding_users not_admin_users sim_erin)
  have t: "FACE_RECOGNITION_THRESHOLD cfg_zero = 0" by (simp add: cfg_zero_def)
  have "fst (verify_face cfg_zero env0 (clock 20000 9 0) (roster [erin]) request0) =
     \<lparr>success = False, message = Face_not_recognized,
      employee_name = None, resp_status = None\<rparr>"
    unfolding request0_def
    by (subst verify_face_probe [OF _ get_image_request process_image_env0])
       (simp_all add: t roster_def i)
  with c i t sim_erin show ?thesis by simp
qed

text \<open>
  Claim C2. When identification accepts an employee, that employee is a candidate,
  the accepted score is the employee's own, it reaches the threshold, and every
  candidate was compared and scores no more: a candidate with a strictly lower score
  than another is never returned.
\<close>

theorem C2_accepted_is_maximal:
  assumes "identify thr ev p us = Inr (Some (e, h), h')"
  shows "e \<in> set (candidates us) \<and> similarity ev thr p e = Inr h \<and> thr \<le> h \<and>
         (\<forall>u\<in>set (candidates us). \<exists>s. similarity ev thr p u = Inr s \<and> s \<le> h)"
proof -
  from assms have fb: "find_best_match ev thr p (employees us) (None, 0) = Inr (Some e, h)"
    and th: "thr \<le> h"
    by (auto simp: identify_def split: sum.splits option.splits if_splits)
  define score where "score u = projr (similarity ev thr p u)" for u
  have sc: "\<forall>u\<in>set (candidates us). similarity ev thr p u = Inr (score u)"
  proof
    fix u assume "u \<in> set (candidates us)"
    then have "u \<in> set (employees us)" "has_embedding u" by (simp_all add: candidates_def)
    with find_best_match_succeeds [OF fb] obtain s where "similarity ev thr p u = Inr s"
      by blast
    then show "similarity ev thr p u = Inr (score u)" by (simp add: score_def)
  qed
  from scan_from_start [OF sc] fb
  obtain pre e' post where c: "candidates us = pre @ e' # post"
    and r: "Inr (Some e, h) = (Inr (Some e', score e') :: error + (user option \<times> real))"
    and lo: "\<forall>u\<in>set pre. score u < score e'" and hi: "\<forall>u\<in>set post. score u \<le> score e'"
    by auto
  from r have e: "e' = e" and h: "h = score e" by simp_all
  have "e \<in> set (candidates us)" using c e by simp
  moreover have "similarity ev thr p e = Inr h" using sc calculation h by simp
  moreover have "\<forall>u\<in>set (candidates us). \<exists>s. similarity ev thr p u = Inr s \<and> s \<le> h"
  proof
    fix u assume u: "u \<in> set (candidates us)"
    then have "score u \<le> score e" using c lo hi e by (auto simp: less_imp_le)
    with sc u h show "\<exists>s. similarity ev thr p u = Inr s \<and> s \<le> h" by simp
  qed
  ultimately show ?thesis using th by simp
qed

theorem C2_witness:
  "identify (3 / 4) env0 [10, 0] [alice, bob, carol, dave]
     = Inr (Some (alice, 9 / 10), 9 / 10) \<and>
   alice \<in> set (candidates [alice, bob, carol, dave]) \<and>
   similarity env0 (3 / 4) [10, 0] alice = Inr (9 / 10) \<and>
   (\<exists>s. similarity env0 (3 / 4) [10, 0] dave = Inr s \<and> s \<le> 9 / 10)"
proof -
  note A = C2_accepted_is_maximal [OF identify_staff]
  have "dave \<in> set (candidates [alice, bob, carol, dave])" by (simp add: candidates_staff)
  with A have "\<exists>s. similarity env0 (3 / 4) [10, 0] dave = Inr s \<and> s \<le> 9 / 10" by blast
  with A identify_staff show ?thesis by blast
qed

text \<open>
  Claim C10, as amended. When every comparison returns a score and some candidate
  scores above 0, the scan selects the first candidate, in the order of the query's
  result, that attains the maximal score: every candidate before it scores strictly
  less, every candidate after it scores no more. Whatever the scan selects is an
  employee with a stored embedding: the others are skipped.
\<close>

theorem C10_first_of_the_best:
  "((\<forall>u\<in>set (candidates us). similarity ev thr p u = Inr (score u)) \<and>
    (\<exists>u\<in>set (candidates us). 0 < score u) \<longrightarrow>
      (\<exists>pre e post. candidates us = pre @ e # post \<and>
         find_best_match ev thr p (employees us) (None, 0) = Inr (Some e, score e) \<and>
         score e = Max (score ` set (candidates us)) \<and>
         (\<forall>u\<in>set pre. score u < score e) \<and> (\<forall>u\<in>set post. score u \<le> score e))) \<and>
   (find_best_match ev thr p (employees us) (None, 0) = Inr (Some e', h) \<longrightarrow>
      e' \<in> set (employees us) \<and> has_embedding e')"
proof (intro conjI impI)
  assume a: "(\<forall>u\<in>set (candidates us). similarity ev thr p u = Inr (score u)) \<and>
    (\<exists>u\<in>set (candidates us). 0 < score u)"
  then have sc: "\<forall>u\<in>set (candidates us). similarity ev thr p u = Inr (score u)"
    and pos: "\<exists>u\<in>set (candidates us). 0 < score u" by simp_all
  from pos have "\<not> (\<forall>u\<in>set (candidates us). score u \<le> 0)" by (auto simp: not_le)
  with scan_from_start [OF sc]
  obtain pre e post where c: "candidates us = pre @ e # post"
    and r: "find_best_match ev thr p (employees us) (None, 0) = Inr (Some e, score e)"
    and lo: "\<forall>u\<in>set pre. score u < score e" and hi: "\<forall>u\<in>set post. score u \<le> score e"
    by blast
  have "score e = Max (score ` set (candidates us))"
    using Max_of_first_best [OF c lo hi] by simp
  with c r lo hi
  show "\<exists>pre e post. candidates us = pre @ e # post \<and>
         find_best_match ev thr p (employees us) (None, 0) = Inr (Some e, score e) \<and>
         score e = Max (score ` set (candidates us)) \<and>
         (\<forall>u\<in>set pre. score u < score e) \<and> (\<forall>u\<in>set post. score u \<le> score e)"
    by blast
next
  assume "find_best_match ev thr p (employees us) (None, 0) = Inr (Some e', h)"
  from find_best_match_selected [OF this]
  show "e' \<in> set (employees us)" and "has_embedding e'" by simp_all
qed

theorem C10_witness:
  "(\<exists>pre e post. candidates [alice, bob, carol, dave] = pre @ e # post \<and>
      find_best_match env0 (3 / 4) [10, 0] (employees [alice, bob, carol, dave]) (None, 0)
        = Inr (Some e, if e = dave then 1 / 2 else 9 / 10) \<and>
      (\<forall>u\<in>set pre. (if u = dave then 1 / 2 else 9 / 10 :: real) < (if e = dave then 1 / 2 else 9 / 10))) \<and>
   similarity env0 (3 / 4) [10, 0] alice = Inr (9 / 10) \<and>
   similarity env0 (3 / 4) [10, 0] bob = Inr (9 / 10) \<and>
   find_best_match env0 (3 / 4) [10, 0] (employees [alice, bob, carol, dave]) (None, 0)
     = Inr (Some alice, 9 / 10) \<and>
   alice \<in> set (employees [alice, bob, carol, dave]) \<and> has_embedding alice"
proof -
  let ?score = "\<lambda>u. if u = dave then 1 / 2 else (9 / 10 :: real)"
  note T = C10_first_of_the_best [of "[alice, bob, carol, dave]" env0 "3 / 4" "[10, 0]" ?score
      alice "9 / 10"]
  have pos: "\<exists>u\<in>set (candidates [alice, bob, carol, dave]). 0 < ?score u"
    by (simp add: candidates_staff)
  from T scores_staff pos
  have "\<exists>pre e post. candidates [alice, bob, carol, dave] = pre @ e # post \<and>
      find_best_match env0 (3 / 4) [10, 0] (employees [alice, bob, carol, dave]) (None, 0)
        = Inr (Some e, ?score e) \<and>
      ?score e = Max (?score ` set (candidates [alice, bob, carol, dave])) \<and>
      (\<forall>u\<in>set pre. ?score u < ?score e) \<and> (\<forall>u\<in>set post. ?score u \<le> ?score e)"
    by blast
  then have 1: "\<exists>pre e post. candidates [alice, bob, carol, dave] = pre @ e # post \<and>
      find_best_match env0 (3 / 4) [10, 0] (employees [alice, bob, carol, dave]) (None, 0)
        = Inr (Some e, ?score e) \<and>
      (\<forall>u\<in>set pre. ?score u < ?score e)"
    by blast
  from T best_staff
  have 2: "alice \<in> set (employees [alice, bob, carol, dave]) \<and> has_embedding alice"
    by blast
  from 1 2 sim_alice sim_bob best_staff show ?thesis by blast
qed

text \<open>
  The claim as stated, for every candidate set with a tie at the maximal score, fails
  when that score is 0: both candidates score 0 and the scan selects none of them.
\<close>

theorem C10_counterexample:
  "candidates [erin, frank] = [erin, frank] \<and>
   similarity env0 (3 / 4) [10, 0] erin = Inr 0 \<and>
   similarity env0 (3 / 4) [10, 0] frank = Inr 0 \<and>
   find_best_match env0 (3 / 4) [10, 0] (employees [erin, frank]) (None, 0) = Inr (None, 0)"
  by (simp add: candidates_def employees_def has_embedding_users not_admin_users
      sim_erin sim_frank)

section \<open>Exceptions, notification and the trace of the endpoint\<close>

lemma find_best_match_raises:
  assumes "u \<in> set es" and "has_embedding u" and "similarity ev thr p u = Inl e"
  shows "\<exists>e'. find_best_match ev thr p es acc = Inl e'"
proof (cases "find_best_match ev thr p es acc")
  case (Inl e')
  then show ?thesis by blast
next
  case (Inr r)
  from find_best_match_succeeds [OF this] assms show ?thesis by auto
qed

lemma similarity_mail: "similarity (ev\<lparr>mail_send := f\<rparr>) thr p u = similarity ev thr p u"
  by (simp add: similarity_def split: option.splits sum.splits)

lemma find_best_match_mail:
  "find_best_match (ev\<lparr>mail_send := f\<rparr>) thr p es acc = find_best_match ev thr p es acc"
proof (induction es arbitrary: acc)
  case Nil
  show ?case by simp
next
  case (Cons x es)
  obtain bm hs where "acc = (bm, hs)" by (cases acc)
  with Cons show ?case by (simp add: similarity_mail split: sum.splits)
qed

lemma identify_mail: "identify thr (ev\<lparr>mail_send := f\<rparr>) p us = identify thr ev p us"
  by (simp add: identify_def find_best_match_mail)

lemma mark_attendance_mail:
  "fst (mark_attendance cfg (ev\<lparr>mail_send := f\<rparr>) now st e h) = fst (mark_attendance cfg ev now st e h)"
  "session (snd (mark_attendance cfg (ev\<lparr>mail_send := f\<rparr>) now st e h))
     = session (snd (mark_attendance cfg ev now st e h))"
  "committed (snd (mark_attendance cfg (ev\<lparr>mail_send := f\<rparr>) now st e h))
     = committed (snd (mark_attendance cfg ev now st e h))"
  "users (snd (mark_attendance cfg (ev\<lparr>mail_send := f\<rparr>) now st e h))
     = users (snd (mark_attendance cfg ev now st e h))"
  by (simp_all add: mark_attendance_def emit_def commit_def Let_def
      split: option.splits sum.splits)

lemma try_block_mail:
  "fst (try_block cfg (ev\<lparr>mail_send := f\<rparr>) now st v) = fst (try_block cfg ev now st v)"
  "session (snd (try_block cfg (ev\<lparr>mail_send := f\<rparr>) now st v))
     = session (snd (try_block cfg ev now st v))"
  "committed (snd (try_block cfg (ev\<lparr>mail_send := f\<rparr>) now st v))
     = committed (snd (try_block cfg ev now st v))"
  by (simp_all add: try_block_def identify_mail mark_attendance_mail Let_def
      split: sum.splits option.splits prod.splits)

lemma verify_face_mail:
  "fst (verify_face cfg (ev\<lparr>mail_send := f\<rparr>) now st data) = fst (verify_face cfg ev now st data)"
  "session (snd (verify_face cfg (ev\<lparr>mail_send := f\<rparr>) now st data))
     = session (snd (verify_face cfg ev now st data))"
  "committed (snd (verify_face cfg (ev\<lparr>mail_send := f\<rparr>) now st data))
     = committed (snd (verify_face cfg ev now st data))"
proof -
  have "fst (verify_face cfg (ev\<lparr>mail_send := f\<rparr>) now st data) = fst (verify_face cfg ev now st data)
      \<and> session (snd (verify_face cfg (ev\<lparr>mail_send := f\<rparr>) now st data))
          = session (snd (verify_face cfg ev now st data))
      \<and> committed (snd (verify_face cfg (ev\<lparr>mail_send := f\<rparr>) now st data))
          = committed (snd (verify_face cfg ev now st data))"
  proof (cases data)
    case None
    then show ?thesis by (simp add: verify_face_def)
  next
    case (Some d)
    show ?thesis
    proof (cases "d ''image''")
      case None
      with Some show ?thesis by (simp add: verify_face_def)
    next
      case v: (Some v)
      obtain r1 s1 where t1: "try_block cfg (ev\<lparr>mail_send := f\<rparr>) now st v = (r1, s1)"
        by (cases "try_block cfg (ev\<lparr>mail_send := f\<rparr>) now st v")
      obtain r2 s2 where t2: "try_block cfg ev now st v = (r2, s2)"
        by (cases "try_block cfg ev now st v")
      from try_block_mail [of cfg f ev now st v] t1 t2
      have "r1 = r2" "session s1 = session s2" "committed s1 = committed s2" by simp_all
      with Some v t1 t2 show ?thesis
        by (cases r2) (simp_all add: verify_face_def emit_def rollback_def)
    qed
  qed
  then show
    "fst (verify_face cfg (ev\<lparr>mail_send := f\<rparr>) now st data) = fst (verify_face cfg ev now st data)"
    "session (snd (verify_face cfg (ev\<lparr>mail_send := f\<rparr>) now st data))
       = session (snd (verify_face cfg ev now st data))"
    "committed (snd (verify_face cfg (ev\<lparr>mail_send := f\<rparr>) now st data))
       = committed (snd (verify_face cfg ev now st data))"
    by simp_all
qed

lemma notification_shape:
  "(\<exists>x. send_attendance_notification ev e a h = [Print x]) \<or>
   (\<exists>m x. send_attendance_notification ev e a h = [Mail_send m, Print x])"
  by (simp add: send_attendance_notification_def split: sum.splits option.splits)

lemma mark_clock_out:
  assumes "existing_attendance (session st) employee (date_of now) = Some existing"
    and "time_out existing = None"
    and "seconds 600 \<le> now - time_in existing"
  shows "mark_attendance cfg ev now st employee h =
     (let existing' = set_time_out existing now;
          rows = update_first (todays employee (date_of now)) existing' (session st);
          matched = Print (Face_matched (name employee) (user_id employee) h)
      in case calculate_hours_worked ev existing' of
           Inl e \<Rightarrow>
             (Inl e, st\<lparr>session := rows, committed := rows,
                       trace := trace st @ [matched, Commit]\<rparr>)
         | Inr hours \<Rightarrow>
             (Inr \<lparr>success = True, message = Clocked_out_successfully hours,
                   employee_name = Some (name employee), resp_status = Some ''clocked_out''\<rparr>,
              st\<lparr>session := rows, committed := rows,
                 trace := trace st @ [matched, Commit]
                          @ send_attendance_notification ev employee existing' (Some hours)\<rparr>))"
  using assms
  by (simp add: mark_attendance_def emit_def commit_def Let_def split: sum.splits)

lemma mark_attendance_trace:
  "\<exists>new. trace (snd (mark_attendance cfg ev now st employee h)) = trace st @ new \<and>
     Rollback \<notin> set new \<and> (\<forall>img. Process_image img \<notin> set new) \<and>
     ((\<forall>m. Mail_send m \<notin> set new) \<or>
      ((\<exists>r. fst (mark_attendance cfg ev now st employee h) = Inr r) \<and>
       (\<exists>a m x. new = [Print a, Commit, Mail_send m, Print x])))"
proof (cases "existing_attendance (session st) employee (date_of now)")
  case None
  let ?att = "\<lparr>employee_id = user_id employee, time_in = now, time_out = None,
                 status = classify cfg now, timestamp = now\<rparr>"
  from notification_shape [of ev employee ?att None]
  show ?thesis
    by (elim disjE exE) (simp_all add: mark_clock_in [OF None] Let_def)
next
  case (Some existing)
  note ex = Some
  show ?thesis
  proof (cases "time_out existing")
    case (Some t)
    with ex show ?thesis by (simp add: mark_closed emit_def)
  next
    case None
    show ?thesis
    proof (cases "now - time_in existing < seconds 600")
      case True
      with ex None show ?thesis by (simp add: mark_too_soon emit_def)
    next
      case False
      then have ge: "seconds 600 \<le> now - time_in existing" by simp
      show ?thesis
      proof (cases "calculate_hours_worked ev (set_time_out existing now)")
        case (Inl e)
        then show ?thesis by (simp add: mark_clock_out [OF ex None ge] Let_def)
      next
        case (Inr hours)
        from notification_shape [of ev employee "set_time_out existing now" "Some hours"]
        show ?thesis
          by (elim disjE exE) (simp_all add: mark_clock_out [OF ex None ge] Let_def Inr)
      qed
    qed
  qed
qed

lemma try_block_trace:
  "\<exists>new. trace (snd (try_block cfg ev now st v)) = trace st @ new \<and>
     Rollback \<notin> set new \<and>
     ((\<forall>m. Mail_send m \<notin> set new) \<or>
      ((\<exists>r. fst (try_block cfg ev now st v) = Inr r) \<and>
       (\<exists>img a m x. new = [Process_image img, Print a, Commit, Mail_send m, Print x])))"
proof (cases "get_image v")
  case (Inl e)
  then show ?thesis by (simp add: try_block_def)
next
  case (Inr img)
  note img = Inr
  show ?thesis
  proof (cases "process_image ev img")
    case (Inl e)
    with img show ?thesis by (simp add: try_block_def emit_def)
  next
    case (Inr pr)
    obtain fb emb where pr: "pr = (fb, emb)" by (cases pr)
    show ?thesis
    proof (cases "fb = None \<or> emb = None")
      case True
      with img Inr pr show ?thesis
        by (cases fb; cases emb) (simp_all add: try_block_def emit_def)
    next
      case False
      then obtain box probe where fe: "fb = Some box" "emb = Some probe" by auto
      let ?st1 = "emit [Process_image img] st"
      let ?thr = "FACE_RECOGNITION_THRESHOLD cfg"
      have u: "users ?st1 = users st" by (simp add: emit_def)
      show ?thesis
      proof (cases "identify ?thr ev probe (users st)")
        case (Inl e)
        with img Inr pr fe show ?thesis by (simp add: try_block_def emit_def)
      next
        case res: (Inr res)
        obtain m hs where mh: "res = (m, hs)" by (cases res)
        show ?thesis
        proof (cases m)
          case None
          with img Inr pr fe res mh show ?thesis by (simp add: try_block_def emit_def)
        next
          case (Some eh)
          obtain e h where eh: "eh = (e, h)" by (cases eh)
          have tb: "try_block cfg ev now st v = mark_attendance cfg ev now ?st1 e h"
            using img Inr pr fe res mh Some eh by (simp add: try_block_def u)
          from mark_attendance_trace [of cfg ev now ?st1 e h]
          obtain new where n: "trace (snd (mark_attendance cfg ev now ?st1 e h)) = trace ?st1 @ new"
            and nr: "Rollback \<notin> set new"
            and nm: "(\<forall>m. Mail_send m \<notin> set new) \<or>
               ((\<exists>r. fst (mark_attendance cfg ev now ?st1 e h) = Inr r) \<and>
                (\<exists>a m x. new = [Print a, Commit, Mail_send m, Print x]))"
            by blast
          have "trace (snd (try_block cfg ev now st v)) = trace st @ (Process_image img # new)"
            using n by (simp add: tb emit_def)
          moreover have "Rollback \<notin> set (Process_image img # new)" using nr by simp
          moreover have "(\<forall>m. Mail_send m \<notin> set (Process_image img # new)) \<or>
              ((\<exists>r. fst (try_block cfg ev now st v) = Inr r) \<and>
               (\<exists>img' a m x. Process_image img # new
                   = [Process_image img', Print a, Commit, Mail_send m, Print x]))"
            using nm by (auto simp: tb)
          ultimately show ?thesis by blast
        qed
      qed
    qed
  qed
qed

lemma verify_face_trace:
  "\<exists>new. trace (snd (verify_face cfg ev now st data)) = trace st @ new \<and>
     ((\<forall>m. Mail_send m \<notin> set new) \<or>
      (\<exists>img a m x. new = [Process_image img, Print a, Commit, Mail_send m, Print x]))"
proof (cases data)
  case None
  then show ?thesis by (simp add: verify_face_def)
next
  case (Some d)
  show ?thesis
  proof (cases "d ''image''")
    case None
    with Some show ?thesis by (simp add: verify_face_def)
  next
    case v: (Some v)
    obtain r s where t: "try_block cfg ev now st v = (r, s)"
      by (cases "try_block cfg ev now st v")
    from try_block_trace [of cfg ev now st v] t
    obtain new where n: "trace s = trace st @ new"
      and nm: "(\<forall>m. Mail_send m \<notin> set new) \<or>
         ((\<exists>r'. r = Inr r') \<and>
          (\<exists>img a m x. new = [Process_image img, Print a, Commit, Mail_send m, Print x]))"
      by auto
    show ?thesis
    proof (cases r)
      case (Inr resp)
      with Some v t n nm show ?thesis by (simp add: verify_face_def)
    next
      case (Inl e)
      with nm have "\<forall>m. Mail_send m \<notin> set new" by simp
      then have "\<forall>m. Mail_send m \<notin> set (new @ [Rollback, Print (Error_in_face_verification e)])"
        by simp
      moreover have "trace (snd (verify_face cfg ev now st data))
          = trace st @ (new @ [Rollback, Print (Error_in_face_verification e)])"
        using Some v t n Inl by (simp add: verify_face_def emit_def rollback_def)
      ultimately show ?thesis by blast
    qed
  qed
qed

section \<open>Evaluation of the endpoint on the concrete inputs\<close>

lemma request0_image:
  "[''image'' \<mapsto> JString ''data:image/png;base64,AAAA''] ''image''
     = Some (JString ''data:image/png;base64,AAAA'')"
  by simp

lemma verify_clock_in:
  "verify_face cfg0 env0 (clock 20000 9 15) (ledger []) request0 =
     (\<lparr>success = True, message = Attendance_marked_as ''present'',
       employee_name = Some ''alice'', resp_status = Some ''present''\<rparr>,
      \<lparr>users = [alice, bob, carol, dave],
       session = [row 11 (clock 20000 9 15) None],
       committed = [row 11 (clock 20000 9 15) None],
       trace = [Process_image ''AAAA'', Print (Face_matched ''alice'' 11 (9 / 10)), Commit]
               @ send_attendance_notification env0 alice (row 11 (clock 20000 9 15) None) None\<rparr>)"
proof -
  let ?st1 = "emit [Process_image ''AAAA''] (ledger [])"
  have c: "classify cfg0 (clock 20000 9 15) = ''present''"
    by (simp add: classify_def late_time_def date_of_clock cfg0_sel)
       (simp add: clock_def combine_def minutes_def)
  have e: "existing_attendance (session ?st1) alice (date_of (clock 20000 9 15)) = None"
    by (simp add: emit_def ledger_sel existing_none)
  have m: "mark_attendance cfg0 env0 (clock 20000 9 15) ?st1 alice (9 / 10) =
     (Inr \<lparr>success = True, message = Attendance_marked_as ''present'',
           employee_name = Some ''alice'', resp_status = Some ''present''\<rparr>,
      \<lparr>users = [alice, bob, carol, dave],
       session = [row 11 (clock 20000 9 15) None],
       committed = [row 11 (clock 20000 9 15) None],
       trace = [Process_image ''AAAA'', Print (Face_matched ''alice'' 11 (9 / 10)), Commit]
               @ send_attendance_notification env0 alice (row 11 (clock 20000 9 15) None) None\<rparr>)"
    by (subst mark_clock_in [OF e]) (simp add: Let_def c alice_sel row_def emit_def ledger_def)
  show ?thesis
    unfolding request0_def
    by (subst verify_face_probe [OF _ get_image_request process_image_env0])
       (simp_all add: cfg0_sel ledger_sel identify_staff m)
qed

lemma candidates_grace: "grace \<in> set (candidates (users (roster [alice, grace])))"
  by (simp add: roster_def candidates_def employees_def has_embedding_users not_admin_users)

section \<open>Claims on notification and on errors\<close>

text \<open>
  Claim C7. The answer of \<^verbatim>\<open>verify_face\<close> and the rows it leaves, in the session
  and committed, are the same whatever \<^verbatim>\<open>mail.send\<close> does, be it to raise: the
  exception is caught inside \<^verbatim>\<open>send_attendance_notification\<close>. In the events of
  a request, a \<^verbatim>\<open>mail.send\<close> comes only after the commit of the transition, and
  no rollback follows it.
\<close>

theorem C7_notification_failure_changes_nothing:
  "fst (verify_face cfg (ev\<lparr>mail_send := f\<rparr>) now st data) = fst (verify_face cfg ev now st data) \<and>
   session (snd (verify_face cfg (ev\<lparr>mail_send := f\<rparr>) now st data))
     = session (snd (verify_face cfg ev now st data)) \<and>
   committed (snd (verify_face cfg (ev\<lparr>mail_send := f\<rparr>) now st data))
     = committed (snd (verify_face cfg ev now st data)) \<and>
   (\<exists>new. trace (snd (verify_face cfg ev now st data)) = trace st @ new \<and>
      (\<forall>pre m post. new = pre @ Mail_send m # post \<longrightarrow>
         Commit \<in> set pre \<and> Rollback \<notin> set post))"
proof -
  from verify_face_trace [of cfg ev now st data]
  obtain new where n: "trace (snd (verify_face cfg ev now st data)) = trace st @ new"
    and nm: "(\<forall>m. Mail_send m \<notin> set new) \<or>
      (\<exists>img a m x. new = [Process_image img, Print a, Commit, Mail_send m, Print x])"
    by blast
  have "\<forall>pre m post. new = pre @ Mail_send m # post \<longrightarrow>
         Commit \<in> set pre \<and> Rollback \<notin> set post"
    using nm
  proof
    assume "\<forall>m. Mail_send m \<notin> set new"
    then show ?thesis by auto
  next
    assume "\<exists>img a m x. new = [Process_image img, Print a, Commit, Mail_send m, Print x]"
    then show ?thesis by (auto simp: Cons_eq_append_conv)
  qed
  with n verify_face_mail [of cfg f ev now st data] show ?thesis by blast
qed

theorem C7_witness:
  "fst (verify_face cfg0 env_mail_down (clock 20000 9 15) (ledger []) request0) =
     \<lparr>success = True, message = Attendance_marked_as ''present'',
      employee_name = Some ''alice'', resp_status = Some ''present''\<rparr> \<and>
   session (snd (verify_face cfg0 env_mail_down (clock 20000 9 15) (ledger []) request0))
     = [row 11 (clock 20000 9 15) None] \<and>
   committed (snd (verify_face cfg0 env_mail_down (clock 20000 9 15) (ledger []) request0))
     = [row 11 (clock 20000 9 15) None] \<and>
   mail_send env_mail_down
     \<lparr>subject = 20000, recipients = [''alice@example.org''], body_name = ''alice'',
      body_status = ''present'', body_time_in = clock 20000 9 15, body_time_out = None\<rparr>
     = Some (OtherError ''connection refused'')"
  using C7_notification_failure_changes_nothing
      [of cfg0 "\<lambda>m. Some (OtherError ''connection refused'')" env0 "clock 20000 9 15"
        "ledger []" request0]
  by (simp add: env_mail_down_def verify_clock_in)

text \<open>
  Claim C8, with \<^verbatim>\<open>compare_faces\<close> as the spec describes it. When the probe was
  extracted and some candidate's stored embedding decodes to a vector of another
  length than the probe, the request ends in the handler of line 508: the session is
  rolled back, the error is printed, and the answer is \<^verbatim>\<open>success = False\<close> with the
  message \<^verbatim>\<open>Error: ...\<close>; it is neither "Face not recognized" nor a match, and no
  row is written.
\<close>

theorem C8_dimension_mismatch_is_an_error:
  assumes "d ''image'' = Some v" and "get_image v = Inr img"
    and "process_image ev img = Inr (Some box, Some probe)"
    and "compare_faces ev = compare_faces_spec sim"
    and "u \<in> set (candidates (users st))"
    and "face_embedding u = Some bs" and "frombuffer ev bs = Inr stored"
    and "length stored \<noteq> length probe"
  shows "\<exists>e. verify_face cfg ev now st (Some d) =
     (\<lparr>success = False, message = Error_message e,
       employee_name = None, resp_status = None\<rparr>,
      st\<lparr>session := committed st,
         trace := trace st @
           [Process_image img, Rollback, Print (Error_in_face_verification e)]\<rparr>)"
proof -
  let ?thr = "FACE_RECOGNITION_THRESHOLD cfg"
  have "similarity ev ?thr probe u = Inl ValueError"
    using assms(4,6,7,8) by (auto simp: similarity_def compare_faces_spec_def)
  moreover have "u \<in> set (employees (users st))" "has_embedding u"
    using assms(5) by (simp_all add: candidates_def)
  ultimately obtain e where
    "find_best_match ev ?thr probe (employees (users st)) (None, 0) = Inl e"
    using find_best_match_raises by blast
  then have "identify ?thr ev probe (users st) = Inl e" by (simp add: identify_def)
  then have "verify_face cfg ev now st (Some d) =
     (\<lparr>success = False, message = Error_message e,
       employee_name = None, resp_status = None\<rparr>,
      st\<lparr>session := committed st,
         trace := trace st @
           [Process_image img, Rollback, Print (Error_in_face_verification e)]\<rparr>)"
    using assms(1,2,3)
    by (simp add: verify_face_probe [of d v img ev box probe] emit_def rollback_def)
  then show ?thesis ..
qed

theorem C8_witness:
  "\<exists>e. verify_face cfg0 env_spec (clock 20000 9 0) (roster [alice, grace]) request0 =
     (\<lparr>success = False, message = Error_message e,
       employee_name = None, resp_status = None\<rparr>,
      \<lparr>users = [alice, grace], session = [], committed = [],
       trace = [Process_image ''AAAA'', Rollback, Print (Error_in_face_verification e)]\<rparr>)"
proof -
  have p: "process_image env_spec ''AAAA'' = Inr (Some [0, 0, 10, 10], Some [10, 0])"
    by (simp add: env_spec_def env0_def)
  have c: "compare_faces env_spec = compare_faces_spec score0"
    by (simp add: env_spec_def)
  have f: "face_embedding grace = Some [9, 1, 4]" by (simp add: grace_def)
  have b: "frombuffer env_spec [9, 1, 4] = Inr [9, 1, 4]"
    by (simp add: env_spec_def env0_def)
  have l: "length [9, 1, 4 :: real] \<noteq> length [10, 0 :: real]" by simp
  from C8_dimension_mismatch_is_an_error
      [where d = "[''image'' \<mapsto> JString ''data:image/png;base64,AAAA'']"
         and v = "JString ''data:image/png;base64,AAAA''" and img = "''AAAA''"
         and ev = env_spec and box = "[0, 0, 10, 10]" and probe = "[10, 0]"
         and sim = score0 and u = grace and st = "roster [alice, grace]"
         and bs = "[9, 1, 4]" and stored = "[9, 1, 4]"
         and cfg = cfg0 and now = "clock 20000 9 0",
       OF request0_image get_image_request p c candidates_grace f b l]
  show ?thesis by (simp add: request0_def roster_def)
qed

text \<open>
  Claim C9. When the \<^verbatim>\<open>image\<close> string of the request does not start with
  \<^verbatim>\<open>data:image\<close>, the local variable \<^verbatim>\<open>image\<close> is unbound in line 423:
  \<^verbatim>\<open>process_image\<close> is not called (no such event is recorded), the NameError
  reaches the handler, which rolls back and prints it, and the answer is
  \<^verbatim>\<open>success = False\<close> with the message \<^verbatim>\<open>Error: ...\<close>.
\<close>

theorem C9_image_without_prefix:
  assumes "d ''image'' = Some (JString s)" and "\<not> startswith s ''data:image''"
  shows "verify_face cfg ev now st (Some d) =
     (\<lparr>success = False, message = Error_message NameError,
       employee_name = None, resp_status = None\<rparr>,
      st\<lparr>session := committed st,
         trace := trace st @ [Rollback, Print (Error_in_face_verification NameError)]\<rparr>)"
  using assms
  by (simp add: verify_face_def try_block_def get_image_def emit_def rollback_def)

theorem C9_witness:
  "verify_face cfg0 env0 (clock 20000 9 0) (ledger []) (Some [''image'' \<mapsto> JString ''AAAA'']) =
     (\<lparr>success = False, message = Error_message NameError,
       employee_name = None, resp_status = None\<rparr>,
      \<lparr>users = [alice, bob, carol, dave], session = [], committed = [],
       trace = [Rollback, Print (Error_in_face_verification NameError)]\<rparr>)"
  using C9_image_without_prefix [of "[''image'' \<mapsto> JString ''AAAA'']" "''AAAA''"
      cfg0 env0 "clock 20000 9 0" "ledger []"]
  by (simp add: startswith_def ledger_def)

end
